theory Spec2Isabelle
  imports Complex_Main
begin

section \<open>The seeded random source\<close>

text \<open>
  The script draws all its randomness from Python's module-level generator, seeded once
  with \<open>random.seed(42)\<close>. The generator itself belongs to the Python library, so it is a
  parameter here: a state type \<open>'s\<close> with the seeding function and the two primitive draws
  every call of the script reduces to (\<open>random.random()\<close>, and the index draw behind
  \<open>random.choice\<close>). Each draw returns the value and the next state.
\<close>

record 's rng =
  rng_seed :: "int \<Rightarrow> 's"
  rng_random :: "'s \<Rightarrow> real \<times> 's"
  rng_randbelow :: "nat \<Rightarrow> 's \<Rightarrow> nat \<times> 's"

text \<open>\<open>random.uniform(a, b)\<close> is \<open>a + (b - a) * random()\<close>.\<close>

definition uniform :: "'s rng \<Rightarrow> real \<Rightarrow> real \<Rightarrow> 's \<Rightarrow> real \<times> 's" where
  "uniform R a b s = (let (u, s') = rng_random R s in (a + (b - a) * u, s'))"

text \<open>\<open>random.choice(seq)\<close> is \<open>seq[randbelow(len(seq))]\<close>.\<close>

definition choice :: "'s rng \<Rightarrow> 'a list \<Rightarrow> 's \<Rightarrow> 'a \<times> 's" where
  "choice R xs s = (let (k, s') = rng_randbelow R (length xs) s in (xs ! k, s'))"

text \<open>
  What Python documents of the generator: \<open>random()\<close> lies in \<open>[0, 1)\<close> and the index
  drawn for a sequence of length \<open>n\<close> lies below \<open>n\<close>.
\<close>

definition rng_ok :: "'s rng \<Rightarrow> bool" where
  "rng_ok R \<longleftrightarrow>
     (\<forall>s. 0 \<le> fst (rng_random R s) \<and> fst (rng_random R s) < 1) \<and>
     (\<forall>n s. 0 < n \<longrightarrow> fst (rng_randbelow R n s) < n)"

text \<open>The first \<open>n\<close> values \<open>random()\<close> returns from state \<open>s\<close>, and the state after them.\<close>

fun rng_draws :: "'s rng \<Rightarrow> nat \<Rightarrow> 's \<Rightarrow> real list \<times> 's" where
  "rng_draws R 0 s = ([], s)"
| "rng_draws R (Suc n) s =
     (let (u, s1) = rng_random R s; (us, s2) = rng_draws R n s1 in (u # us, s2))"

text \<open>
  Two concrete generators for evaluation: a counter whose \<open>k\<close>-th draw is \<open>(k mod 10) / 10\<close>
  (its state counts the draws made), and one that always returns the same value.
\<close>

definition counter_rng :: "nat rng" where
  "counter_rng = \<lparr> rng_seed = (\<lambda>_. 0),
                   rng_random = (\<lambda>s. (real (s mod 10) / 10, Suc s)),
                   rng_randbelow = (\<lambda>n s. (s mod n, Suc s)) \<rparr>"

definition const_rng :: "real \<Rightarrow> nat rng" where
  "const_rng u = \<lparr> rng_seed = (\<lambda>_. 0),
                   rng_random = (\<lambda>s. (u, Suc s)),
                   rng_randbelow = (\<lambda>n s. (0, Suc s)) \<rparr>"

section \<open>Cairo calls\<close>

text \<open>
  A drawing context is modelled by the sequence of calls the script makes on it: the pixels
  of a surface are whatever Cairo renders for that sequence. An image is either the content
  of a surface of given size (the calls made on its context) or the output the external
  \<open>convert\<close> program produces from an image under given options.
\<close>

datatype line_cap = LINE_CAP_BUTT | LINE_CAP_ROUND | LINE_CAP_SQUARE

type_synonym rgba = "real \<times> real \<times> real \<times> real"

text \<open>A colour stop is the argument list of \<open>add_color_stop_rgba(offset, r, g, b, a)\<close>.\<close>

type_synonym color_stop = "real \<times> rgba"

datatype pattern =
    LinearGradient real real real real "color_stop list"
  | RadialGradient real real real real real real "color_stop list"

datatype call =
    Save
  | Restore
  | Translate real real
  | Rotate real
  | Move_to real real
  | Line_to real real
  | Curve_to real real real real real real
  | Close_path
  | Rectangle real real real real
  | Arc real real real real real
  | Set_source_rgba real real real real
  | Set_source pattern
  | Set_source_surface image real real
  | Set_line_width real
  | Set_line_cap line_cap
  | Paint
  | Paint_with_alpha real
  | Fill
  | Fill_preserve
  | Stroke
and image =
    Surface int int "call list"
  | Convert_result "string list" image

text \<open>The helper \<open>rgb(r, g, b, a)\<close> of the script: \<open>set_source_rgba(r/255, g/255, b/255, a)\<close>.\<close>

definition rgb :: "real \<Rightarrow> real \<Rightarrow> real \<Rightarrow> real \<Rightarrow> call" where
  "rgb r g b a = Set_source_rgba (r / 255) (g / 255) (b / 255) a"

section \<open>Python helpers\<close>

text \<open>\<open>int(x)\<close> on a float truncates toward zero.\<close>

definition py_int :: "real \<Rightarrow> int" where
  "py_int r = (if 0 \<le> r then \<lfloor>r\<rfloor> else \<lceil>r\<rceil>)"

text \<open>\<open>range(a, b, step)\<close> for the positive steps the script uses.\<close>

function py_range :: "int \<Rightarrow> int \<Rightarrow> int \<Rightarrow> int list" where
  "py_range a b step = (if 0 < step \<and> a < b then a # py_range (a + step) b step else [])"
  by pat_completeness auto
termination
  by (relation "measure (\<lambda>(a, b, step). nat (b - a))") auto

declare py_range.simps [simp del]

text \<open>
  A \<open>for\<close> loop whose body draws random numbers: the body maps the loop variable and the
  generator state to the calls it makes and the next state.
\<close>

fun for_rng :: "('a \<Rightarrow> 's \<Rightarrow> call list \<times> 's) \<Rightarrow> 'a list \<Rightarrow> 's \<Rightarrow> call list \<times> 's" where
  "for_rng body [] s = ([], s)"
| "for_rng body (i # is) s =
     (let (cs, s1) = body i s; (ds, s2) = for_rng body is s1 in (cs @ ds, s2))"

section \<open>Stage 1: sky gradient\<close>

definition sky_stops :: "color_stop list" where
  "sky_stops =
     [(0.0,  0.97, 0.96, 0.88, 1),
      (0.12, 0.96, 0.95, 0.86, 1),
      (0.30, 0.93, 0.95, 0.85, 1),
      (0.50, 0.88, 0.93, 0.82, 1),
      (0.70, 0.82, 0.90, 0.76, 1),
      (1.0,  0.72, 0.84, 0.65, 1)]"

definition sky :: "int \<Rightarrow> call list" where
  "sky H = [Set_source (LinearGradient 0 0 0 H sky_stops), Paint]"

section \<open>Stage 2: sun\<close>

definition sun_x :: "int \<Rightarrow> real" where
  "sun_x W = W * 0.82"

definition sun_y :: "int \<Rightarrow> real" where
  "sun_y H = H * 0.08"

definition sun_glow_disc :: "int \<Rightarrow> int \<Rightarrow> nat \<Rightarrow> call list" where
  "sun_glow_disc W H i =
     (let r = 500 - real i * 30;
          alpha = 0.03 + real i * 0.008
      in [Set_source (RadialGradient (sun_x W) (sun_y H) 0 (sun_x W) (sun_y H) r
            [(0, 1.0, 0.92, 0.5, alpha * 2.5),
             (0.4, 1.0, 0.88, 0.4, alpha * 1.5),
             (1.0, 1.0, 0.85, 0.3, 0)]),
          Paint])"

definition sun_glow :: "int \<Rightarrow> int \<Rightarrow> call list" where
  "sun_glow W H = concat (map (sun_glow_disc W H) [0..<8])"

text \<open>
  The body of the ray loop from \<open>ctx.save()\<close> to \<open>ctx.restore()\<close>, for ray \<open>i\<close> of the given
  length.
\<close>

definition sun_ray :: "int \<Rightarrow> int \<Rightarrow> nat \<Rightarrow> real \<Rightarrow> call list" where
  "sun_ray W H i len =
     (let angle = real i * (2 * pi / 24) + 0.13
      in [Save,
          Translate (sun_x W) (sun_y H),
          Rotate angle,
          Move_to 40 0,
          Line_to len 0,
          rgb 218 180 40 (if i mod 3 = 0 then 0.14 else 0.08),
          Set_line_width (if i mod 3 = 0 then 1.5 else 0.6),
          Stroke,
          Restore])"

definition sun_ray_step :: "'s rng \<Rightarrow> int \<Rightarrow> int \<Rightarrow> nat \<Rightarrow> 's \<Rightarrow> call list \<times> 's" where
  "sun_ray_step R W H i s =
     (let (u, s1) = uniform R (-80) 120 s in (sun_ray W H i (350 + u), s1))"

definition sun_rays :: "'s rng \<Rightarrow> int \<Rightarrow> int \<Rightarrow> 's \<Rightarrow> call list \<times> 's" where
  "sun_rays R W H s = for_rng (sun_ray_step R W H) [0..<24] s"

definition sun_core :: "int \<Rightarrow> int \<Rightarrow> call list" where
  "sun_core W H =
     [Set_source (RadialGradient (sun_x W - 8) (sun_y H - 8) 0 (sun_x W) (sun_y H) 55
        [(0.0, 1.0, 0.98, 0.88, 0.9),
         (0.3, 1.0, 0.92, 0.55, 0.7),
         (0.6, 0.92, 0.78, 0.25, 0.5),
         (0.85, 0.48, 0.78, 0.30, 0.3),
         (1.0, 0.24, 0.54, 0.16, 0.15)]),
      Arc (sun_x W) (sun_y H) 55 0 (2 * pi),
      Fill,
      Set_line_width 1.2,
      rgb 255 248 200 0.4,
      Arc (sun_x W) (sun_y H) 56 0 (2 * pi),
      Stroke]"

section \<open>Stage 3: city skyline\<close>

text \<open>A building is the tuple \<open>(x, bw, bh, btype)\<close> the script appends.\<close>

type_synonym building = "real \<times> real \<times> real \<times> string"

definition btypes :: "string list" where
  "btypes = [''tower'', ''tower'', ''tower'', ''dome'', ''spire'', ''block'', ''antenna'',
             ''megablock'']"

definition horizon_y :: "int \<Rightarrow> real" where
  "horizon_y H = H * 0.50"

text \<open>
  One pass of the body of the generation loop at cursor \<open>x\<close>: the building appended, the
  advanced cursor and the generator state after the four draws.
\<close>

definition building_step :: "'s rng \<Rightarrow> real \<Rightarrow> 's \<Rightarrow> building \<times> real \<times> 's" where
  "building_step R x s =
     (let (btype, s1) = choice R btypes s;
          (bw, s2) = (if btype \<noteq> ''megablock'' then uniform R 18 55 s1
                      else uniform R 60 110 s1);
          (bh, s3) = (if btype = ''tower'' then uniform R 80 240 s2
                      else if btype = ''dome'' then uniform R 50 120 s2
                      else if btype = ''spire'' then uniform R 150 320 s2
                      else if btype = ''antenna'' then uniform R 180 350 s2
                      else if btype = ''megablock'' then uniform R 60 160 s2
                      else uniform R 40 100 s2);
          (f, s4) = uniform R 0.5 1.1 s3
      in ((x, bw, bh, btype), x + bw * f, s4))"

text \<open>
  The loop \<open>while x < W + 20\<close>. Whether it ends depends on the values drawn, so not
  returning is the value \<open>None\<close>.
\<close>

partial_function (option) gen_buildings ::
  "'s rng \<Rightarrow> int \<Rightarrow> building list \<Rightarrow> real \<Rightarrow> 's \<Rightarrow> (building list \<times> 's) option" where
  "gen_buildings R W buildings x s =
     (if x < real_of_int (W + 20) then
        (case building_step R x s of
           (b, x', s') \<Rightarrow> gen_buildings R W (buildings @ [b]) x' s')
      else Some (buildings, s))"

text \<open>
  Position and width of a building, and the shape of a generated sequence up to the right
  edge \<open>edge\<close>: every building starts left of the edge with a width in the sampled range,
  the next one starts between 0.5 and 1.1 widths further right, and 1.1 widths from the last
  start reach the edge.
\<close>

definition bld_x :: "building \<Rightarrow> real" where
  "bld_x b = fst b"

definition bld_w :: "building \<Rightarrow> real" where
  "bld_w b = fst (snd b)"

fun skyline_chain :: "real \<Rightarrow> building list \<Rightarrow> bool" where
  "skyline_chain edge [] = True"
| "skyline_chain edge [b] =
     (bld_x b < edge \<and> 18 \<le> bld_w b \<and> bld_w b \<le> 110 \<and> edge \<le> bld_x b + bld_w b * 1.1)"
| "skyline_chain edge (b # b' # bs) =
     (bld_x b < edge \<and> 18 \<le> bld_w b \<and> bld_w b \<le> 110 \<and>
      bld_x b + bld_w b * 0.5 \<le> bld_x b' \<and> bld_x b' \<le> bld_x b + bld_w b * 1.1 \<and>
      skyline_chain edge (b' # bs))"

text \<open>
  \<open>draw_city_silhouette(target_ctx, alpha_mult, offset_x, offset_y)\<close>: the calls made on
  \<open>target_ctx\<close>. The city colour is \<open>cr, cg, cb = 0.18, 0.20, 0.28\<close>.
\<close>

definition city_cr :: real where "city_cr = 0.18"
definition city_cg :: real where "city_cg = 0.20"
definition city_cb :: real where "city_cb = 0.28"

definition tower_window :: "'s rng \<Rightarrow> real \<Rightarrow> int \<Rightarrow> int \<Rightarrow> 's \<Rightarrow> call list \<times> 's" where
  "tower_window R alpha_mult wy wx s =
     (let (u, s1) = rng_random R s
      in if u > 0.4 then
           (let (wr, s2) = choice R [(0.85, 0.75, 0.35), (0.50, 0.70, 0.90),
                                      (0.75, 0.50, 0.85), (0.30, 0.80, 0.60)] s1
            in ([Set_source_rgba (fst wr) (fst (snd wr)) (snd (snd wr)) (0.06 * alpha_mult),
                 Rectangle wx wy 3 5,
                 Fill], s2))
         else ([], s1))"

definition draw_tower ::
  "'s rng \<Rightarrow> real \<Rightarrow> real \<Rightarrow> real \<Rightarrow> real \<Rightarrow> real \<Rightarrow> real \<Rightarrow> 's \<Rightarrow> call list \<times> 's" where
  "draw_tower R alpha_mult bx2 by' a bw bh s =
     (let (taper, s1) = uniform R 0.85 0.98 s;
          body = [Move_to bx2 by',
                  Line_to bx2 (by' - bh),
                  Line_to (bx2 + bw * taper) (by' - bh),
                  Line_to (bx2 + bw) by',
                  Close_path,
                  Set_source_rgba city_cr city_cg city_cb a,
                  Fill];
          (u, s2) = rng_random R s1;
          roof = (if u > 0.5 then
                    [Move_to (bx2 + bw * 0.45) (by' - bh),
                     Line_to (bx2 + bw * 0.48) (by' - bh - 20),
                     Line_to (bx2 + bw * 0.52) (by' - bh - 20),
                     Line_to (bx2 + bw * 0.55) (by' - bh),
                     Close_path,
                     Set_source_rgba city_cr city_cg city_cb (a * 0.9),
                     Fill]
                  else []);
          (windows, s3) =
             for_rng (\<lambda>wy. for_rng (tower_window R alpha_mult wy)
                               (py_range (py_int (bx2 + 4)) (py_int (bx2 + bw - 4)) 8))
               (py_range (py_int (by' - bh + 15)) (py_int (by' - 10)) 14) s2
      in (body @ roof @ windows, s3))"

definition dome_rib :: "real \<Rightarrow> real \<Rightarrow> real \<Rightarrow> real \<Rightarrow> real \<Rightarrow> nat \<Rightarrow> call list" where
  "dome_rib alpha_mult bx2 by' bw bh ri =
     (let rx = bx2 + bw * (0.25 + real ri * 0.25);
          rib_h = bh * (if ri = 1 then 0.85 else 0.7)
      in [Move_to rx by',
          Line_to rx (by' - rib_h),
          Set_source_rgba (city_cr * 0.7) (city_cg * 0.7) (city_cb * 0.7) (0.08 * alpha_mult),
          Set_line_width 0.8,
          Stroke])"

definition draw_dome :: "real \<Rightarrow> real \<Rightarrow> real \<Rightarrow> real \<Rightarrow> real \<Rightarrow> real \<Rightarrow> call list" where
  "draw_dome alpha_mult bx2 by' a bw bh =
     [Move_to bx2 by',
      Line_to bx2 (by' - bh * 0.5),
      Curve_to bx2 (by' - bh) (bx2 + bw) (by' - bh) (bx2 + bw) (by' - bh * 0.5),
      Line_to (bx2 + bw) by',
      Close_path,
      Set_source_rgba city_cr city_cg city_cb a,
      Fill]
     @ concat (map (dome_rib alpha_mult bx2 by' bw bh) [0..<3])"

definition draw_spire :: "real \<Rightarrow> real \<Rightarrow> real \<Rightarrow> real \<Rightarrow> real \<Rightarrow> real \<Rightarrow> call list" where
  "draw_spire alpha_mult bx2 by' a bw bh =
     [Move_to bx2 by',
      Line_to (bx2 + bw * 0.15) (by' - bh * 0.6),
      Line_to (bx2 + bw * 0.35) (by' - bh * 0.65),
      Line_to (bx2 + bw * 0.5) (by' - bh),
      Line_to (bx2 + bw * 0.65) (by' - bh * 0.65),
      Line_to (bx2 + bw * 0.85) (by' - bh * 0.6),
      Line_to (bx2 + bw) by',
      Close_path,
      Set_source_rgba city_cr city_cg city_cb a,
      Fill,
      Arc (bx2 + bw * 0.5) (by' - bh) 2 0 (2 * pi),
      Set_source_rgba 0.80 0.40 0.40 (0.12 * alpha_mult),
      Fill]"

definition antenna_brace :: "real \<Rightarrow> real \<Rightarrow> int \<Rightarrow> call list" where
  "antenna_brace alpha_mult mid cb_y =
     [Move_to (mid - 3) cb_y,
      Line_to (mid + 3) cb_y,
      Set_source_rgba city_cr city_cg city_cb (0.12 * alpha_mult),
      Set_line_width 0.6,
      Stroke]"

definition draw_antenna ::
  "'s rng \<Rightarrow> real \<Rightarrow> real \<Rightarrow> real \<Rightarrow> real \<Rightarrow> real \<Rightarrow> real \<Rightarrow> 's \<Rightarrow> call list \<times> 's" where
  "draw_antenna R alpha_mult bx2 by' a bw bh s =
     (let mid = bx2 + bw * 0.5;
          mast = [Move_to (mid - 3) by',
                  Line_to (mid - 1.5) (by' - bh),
                  Line_to (mid + 1.5) (by' - bh),
                  Line_to (mid + 3) by',
                  Close_path,
                  Set_source_rgba city_cr city_cg city_cb (a * 0.8),
                  Fill];
          braces = concat (map (antenna_brace alpha_mult mid)
                     (py_range (py_int (by' - bh + 30)) (py_int (by' - 10)) 35));
          (u, s1) = uniform R 0.55 0.75 s;
          dish_y = by' - bh * u
      in (mast @ braces @
          [Arc (mid + 8) dish_y 8 (pi * 0.3) (pi * 1.3),
           Set_source_rgba city_cr city_cg city_cb (0.15 * alpha_mult),
           Set_line_width 1.5,
           Stroke,
           Arc mid (by' - bh) 2.5 0 (2 * pi),
           Set_source_rgba 0.9 0.3 0.3 (0.15 * alpha_mult),
           Fill], s1))"

definition megablock_terrace :: "real \<Rightarrow> real \<Rightarrow> real \<Rightarrow> real \<Rightarrow> real \<Rightarrow> nat \<Rightarrow> call list" where
  "megablock_terrace alpha_mult bx2 by' bw bh ti =
     (let terrace_h = bh * (0.3 + real ti * 0.2);
          setback = bw * 0.08 * (real ti + 1)
      in [Move_to (bx2 + setback) (by' - terrace_h),
          Line_to (bx2 + bw - setback) (by' - terrace_h),
          Set_source_rgba (city_cr * 0.8) (city_cg * 0.8) (city_cb * 0.8) (0.06 * alpha_mult),
          Set_line_width 1,
          Stroke])"

definition megablock_window :: "'s rng \<Rightarrow> real \<Rightarrow> int \<Rightarrow> int \<Rightarrow> 's \<Rightarrow> call list \<times> 's" where
  "megablock_window R alpha_mult wy wx s =
     (let (u, s1) = rng_random R s
      in if u > 0.35 then
           (let (wr, s2) = choice R [(0.85, 0.78, 0.40), (0.45, 0.65, 0.90),
                                      (0.70, 0.45, 0.80)] s1
            in ([Set_source_rgba (fst wr) (fst (snd wr)) (snd (snd wr)) (0.04 * alpha_mult),
                 Rectangle wx wy 4 6,
                 Fill], s2))
         else ([], s1))"

definition draw_megablock ::
  "'s rng \<Rightarrow> real \<Rightarrow> real \<Rightarrow> real \<Rightarrow> real \<Rightarrow> real \<Rightarrow> real \<Rightarrow> 's \<Rightarrow> call list \<times> 's" where
  "draw_megablock R alpha_mult bx2 by' a bw bh s =
     (let slab = [Rectangle bx2 (by' - bh) bw bh,
                  Set_source_rgba city_cr city_cg city_cb (a * 0.9),
                  Fill];
          terraces = concat (map (megablock_terrace alpha_mult bx2 by' bw bh) [0..<3]);
          (windows, s1) =
             for_rng (\<lambda>wy. for_rng (megablock_window R alpha_mult wy)
                               (py_range (py_int (bx2 + 5)) (py_int (bx2 + bw - 5)) 10))
               (py_range (py_int (by' - bh + 10)) (py_int (by' - 5)) 12) s
      in (slab @ terraces @ windows, s1))"

definition draw_block :: "real \<Rightarrow> real \<Rightarrow> real \<Rightarrow> real \<Rightarrow> real \<Rightarrow> call list" where
  "draw_block bx2 by' a bw bh =
     [Rectangle bx2 (by' - bh) bw bh,
      Set_source_rgba city_cr city_cg city_cb (a * 0.85),
      Fill]"

text \<open>The body of the loop over \<open>buildings\<close>, dispatching on the variant tag.\<close>

definition draw_building ::
  "'s rng \<Rightarrow> int \<Rightarrow> real \<Rightarrow> real \<Rightarrow> real \<Rightarrow> building \<Rightarrow> 's \<Rightarrow> call list \<times> 's" where
  "draw_building R H alpha_mult offset_x offset_y b s =
     (case b of (bx, bw, bh, btype) \<Rightarrow>
        (let bx2 = bx + offset_x;
             by' = horizon_y H + offset_y;
             a = 0.22 * alpha_mult
         in if btype = ''tower'' then draw_tower R alpha_mult bx2 by' a bw bh s
            else if btype = ''dome'' then (draw_dome alpha_mult bx2 by' a bw bh, s)
            else if btype = ''spire'' then (draw_spire alpha_mult bx2 by' a bw bh, s)
            else if btype = ''antenna'' then draw_antenna R alpha_mult bx2 by' a bw bh s
            else if btype = ''megablock'' then draw_megablock R alpha_mult bx2 by' a bw bh s
            else (draw_block bx2 by' a bw bh, s)))"

definition draw_city_silhouette ::
  "'s rng \<Rightarrow> int \<Rightarrow> building list \<Rightarrow> real \<Rightarrow> real \<Rightarrow> real \<Rightarrow> 's \<Rightarrow> call list \<times> 's" where
  "draw_city_silhouette R H buildings alpha_mult offset_x offset_y s =
     for_rng (draw_building R H alpha_mult offset_x offset_y) buildings s"


section \<open>Blur and compositing of the city layer\<close>

datatype error = CalledProcessError | PngReadError

text \<open>
  The file system, keyed by the path strings the scripts pass: a file holds a PNG image or
  text.
\<close>

datatype file_data = Png_file image | Text_file string

type_synonym files = "string \<Rightarrow> file_data option"

definition city_layer_png :: string where
  "city_layer_png = ''/home/user/janus-monitor/src/assets/_city_layer.png''"

definition base_layer_png :: string where
  "base_layer_png = ''/home/user/janus-monitor/src/assets/_base_layer.png''"

definition city_blurred_png :: string where
  "city_blurred_png = ''/home/user/janus-monitor/src/assets/_city_blurred.png''"

definition solarpunk_bg_png :: string where
  "solarpunk_bg_png = ''/home/user/janus-monitor/src/assets/solarpunk_bg.png''"

text \<open>\<open>surface.write_to_png(path)\<close>: the file holds the content of the surface.\<close>

definition write_to_png :: "int \<Rightarrow> int \<Rightarrow> call list \<Rightarrow> string \<Rightarrow> files \<Rightarrow> files" where
  "write_to_png W H calls path fs = fs(path \<mapsto> Png_file (Surface W H calls))"

text \<open>
  \<open>subprocess.run(argv, check=True)\<close> for the one command line the script runs,
  \<open>convert IN OPTION ARG OUT\<close>. The program is ImageMagick's, outside the repository: its
  output is the image \<open>Convert_result [OPTION, ARG]\<close> of the input file's image, and
  \<open>check=True\<close> raises when the program fails, here when its input is not an image file.
\<close>

definition subprocess_run :: "string list \<Rightarrow> files \<Rightarrow> error + files" where
  "subprocess_run argv fs =
     (case argv of
        [prog, inp, opt, arg, out] \<Rightarrow>
          (if prog = ''convert'' then
             (case fs inp of
                Some (Png_file img) \<Rightarrow> Inr (fs(out \<mapsto> Png_file (Convert_result [opt, arg] img)))
              | _ \<Rightarrow> Inl CalledProcessError)
           else Inl CalledProcessError)
      | _ \<Rightarrow> Inl CalledProcessError)"

text \<open>\<open>cairo.ImageSurface.create_from_png(path)\<close> raises when the file is not an image file.\<close>

definition create_from_png :: "string \<Rightarrow> files \<Rightarrow> error + image" where
  "create_from_png path fs =
     (case fs path of Some (Png_file img) \<Rightarrow> Inr img | _ \<Rightarrow> Inl PngReadError)"

definition convert_argv :: "string list" where
  "convert_argv = [''convert'', city_layer_png, ''-blur'', ''0x8'', city_blurred_png]"




text \<open>The two calls on the main context that composite the blurred city.\<close>

definition composite_city :: "image \<Rightarrow> call list" where
  "composite_city blurred_city = [Set_source_surface blurred_city 0 0, Paint_with_alpha 0.85]"

definition haze :: "int \<Rightarrow> int \<Rightarrow> call list" where
  "haze W H =
     [Set_source (LinearGradient 0 (horizon_y H - 350) 0 (horizon_y H + 40)
        [(0, 0.92, 0.94, 0.86, 0.5),
         (0.4, 0.90, 0.93, 0.84, 0.35),
         (0.7, 0.88, 0.92, 0.82, 0.2),
         (1.0, 0.85, 0.91, 0.80, 0)]),
      Rectangle 0 (horizon_y H - 350) W 400,
      Fill]"

section \<open>Stage 4: rolling hills\<close>

text \<open>The list \<open>hills\<close>: baseline, fill alpha and fill colour of each hill, back to front.\<close>

definition hills :: "int \<Rightarrow> (real \<times> real \<times> real \<times> real \<times> real) list" where
  "hills H =
     [(H * 0.58, 0.14, 0.58, 0.74, 0.48),
      (H * 0.64, 0.18, 0.48, 0.68, 0.40),
      (H * 0.70, 0.24, 0.38, 0.60, 0.32),
      (H * 0.78, 0.30, 0.30, 0.52, 0.26)]"

text \<open>The expression assigned to \<open>cy\<close>, as a function of the value drawn for the phase.\<close>

definition hill_cy :: "real \<Rightarrow> int \<Rightarrow> real \<Rightarrow> real" where
  "hill_cy base_y x u = base_y + sin (x * 0.003 + u) * 35 + sin (x * 0.008) * 18"

text \<open>The loop \<open>while x < W + 50\<close> over the silhouette samples, \<open>x\<close> advancing by 3.\<close>

function hill_outline :: "'s rng \<Rightarrow> int \<Rightarrow> real \<Rightarrow> int \<Rightarrow> 's \<Rightarrow> call list \<times> 's" where
  "hill_outline R W base_y x s =
     (if x < W + 50 then
        (let (u, s1) = uniform R 0 1 s;
             cy = hill_cy base_y x u;
             (cs, s2) = hill_outline R W base_y (x + 3) s1
         in (Line_to x cy # cs, s2))
      else ([], s))"
  by pat_completeness auto
termination
  by (relation "measure (\<lambda>(R, W, base_y, x, s). nat (W + 50 - x))") auto

declare hill_outline.simps [simp del]

definition draw_hill ::
  "'s rng \<Rightarrow> int \<Rightarrow> int \<Rightarrow> real \<times> real \<times> real \<times> real \<times> real \<Rightarrow> 's \<Rightarrow> call list \<times> 's" where
  "draw_hill R W H hill s =
     (case hill of (base_y, alpha, hr, hg, hb) \<Rightarrow>
        (let (outline, s1) = hill_outline R W base_y 0 s
         in ([Move_to 0 (base_y + 40)] @ outline @
             [Line_to W H,
              Line_to 0 H,
              Close_path,
              Set_source_rgba hr hg hb alpha,
              Fill], s1)))"

definition draw_hills :: "'s rng \<Rightarrow> int \<Rightarrow> int \<Rightarrow> 's \<Rightarrow> call list \<times> 's" where
  "draw_hills R W H s = for_rng (draw_hill R W H) (hills H) s"

section \<open>Stage 5: vine borders\<close>

text \<open>The sampling loop \<open>while y < y_end\<close> of \<open>draw_vine\<close>, \<open>y\<close> advancing by 3.\<close>

function vine_points :: "real \<Rightarrow> int \<Rightarrow> int \<Rightarrow> string \<Rightarrow> (real \<times> real) list" where
  "vine_points x_base y y_end side =
     (if y < y_end then
        (let offset = sin (y * 0.008) * 25 + sin (y * 0.02) * 12;
             offset = (if side = ''right'' then - offset else offset)
         in (x_base + offset, real_of_int y) # vine_points x_base (y + 3) y_end side)
      else [])"
  by pat_completeness auto
termination
  by (relation "measure (\<lambda>(x_base, y, y_end, side). nat (y_end - y))") auto

declare vine_points.simps [simp del]

definition vine_stem_seg :: "(real \<times> real) list \<Rightarrow> int \<Rightarrow> call list" where
  "vine_stem_seg points i =
     (if i + 1 < int (length points) then
        [Curve_to (fst (points ! nat i)) (snd (points ! nat i))
                  (fst (points ! nat i)) (snd (points ! nat i))
                  (fst (points ! nat (i + 1))) (snd (points ! nat (i + 1)))]
      else [])"

definition vine_tendril :: "(real \<times> real) list \<Rightarrow> string \<Rightarrow> int \<Rightarrow> call list" where
  "vine_tendril points side i =
     (let ox = (if side = ''left'' then 8 else - 8);
          j = min (i + 4) (int (length points) - 1);
          pi' = points ! nat i;
          pj = points ! nat j
      in [Move_to (fst pi' + ox) (snd pi'),
          Curve_to (fst pi' + ox + 15 * (if side = ''left'' then 1 else - 1)) (snd pi' + 20)
                   (fst pj + ox + 10 * (if side = ''left'' then 1 else - 1)) (snd pj - 15)
                   (fst pj + ox) (snd pj),
          Stroke])"

text \<open>
  The body of the leaf loop from \<open>ctx.save()\<close> to \<open>ctx.restore()\<close>, for the values computed
  and drawn for one leaf.
\<close>

definition vine_leaf :: "real \<Rightarrow> real \<Rightarrow> real \<Rightarrow> real \<Rightarrow> real \<Rightarrow> call list" where
  "vine_leaf px py leaf_angle leaf_size gv =
     [Save,
      Translate px py,
      Rotate leaf_angle,
      Move_to 0 0,
      Curve_to (leaf_size * 0.4) (- leaf_size * 0.35) (leaf_size * 0.8) (- leaf_size * 0.15)
               leaf_size 0,
      Curve_to (leaf_size * 0.8) (leaf_size * 0.15) (leaf_size * 0.4) (leaf_size * 0.35) 0 0,
      Set_source_rgba (0.22 * gv) (0.50 * gv) (0.18 * gv) 0.35,
      Fill,
      Move_to 0 0,
      Line_to (leaf_size * 0.9) 0,
      rgb 35 80 28 0.2,
      Set_line_width 0.5,
      Stroke,
      Restore]"

definition vine_leaf_step ::
  "'s rng \<Rightarrow> (real \<times> real) list \<Rightarrow> string \<Rightarrow> int \<Rightarrow> 's \<Rightarrow> call list \<times> 's" where
  "vine_leaf_step R points side i s =
     (let px = fst (points ! nat i);
          py = snd (points ! nat i);
          leaf_angle = sin (i * 0.1) * 0.5 + (if side = ''left'' then 0.3 else 2.8);
          (u, s1) = uniform R (-3) 6 s;
          leaf_size = 14 + u;
          (gv, s2) = uniform R 0.85 1.15 s1
      in (vine_leaf px py leaf_angle leaf_size gv, s2))"

definition vine_curl_point :: "real \<Rightarrow> real \<Rightarrow> real \<Rightarrow> nat \<Rightarrow> call" where
  "vine_curl_point px py curl_dir t =
     (let ang = real t * 0.25;
          r = real t * 0.6
      in Line_to (px + curl_dir * (r * cos ang + 8)) (py - r * sin ang - 5))"

definition vine_curl :: "(real \<times> real) list \<Rightarrow> string \<Rightarrow> int \<Rightarrow> call list" where
  "vine_curl points side i =
     (let px = fst (points ! nat i);
          py = snd (points ! nat i);
          curl_dir = (if side = ''left'' then 1 else - 1)
      in [Set_line_width 0.8,
          rgb 58 110 40 0.25,
          Move_to px py]
         @ map (vine_curl_point px py curl_dir) [0..<30]
         @ [Stroke])"

definition draw_vine ::
  "'s rng \<Rightarrow> real \<Rightarrow> int \<Rightarrow> int \<Rightarrow> string \<Rightarrow> real \<Rightarrow> 's \<Rightarrow> call list \<times> 's" where
  "draw_vine R x_base y_start y_end side thickness s =
     (let points = vine_points x_base y_start y_end side
      in if length points < 2 then ([], s)
         else
           (let n = int (length points);
                stem = [Set_line_width thickness,
                        Set_line_cap LINE_CAP_ROUND,
                        rgb 42 100 35 0.55,
                        Move_to (fst (points ! 0)) (snd (points ! 0))]
                       @ concat (map (vine_stem_seg points) (py_range 1 (n - 1) 2))
                       @ [Stroke];
                tendrils = [Set_line_width (thickness * 0.5),
                            rgb 58 120 42 0.35]
                           @ concat (map (vine_tendril points side) (py_range 0 (n - 4) 3));
                (leaves, s1) = for_rng (vine_leaf_step R points side) (py_range 0 (n - 1) 18) s;
                curls = concat (map (vine_curl points side) (py_range 0 (n - 1) 35))
            in (stem @ tendrils @ leaves @ curls, s1)))"

text \<open>The four calls of \<open>draw_vine\<close> at the top level, in order.\<close>

definition draw_vines :: "'s rng \<Rightarrow> int \<Rightarrow> int \<Rightarrow> 's \<Rightarrow> call list \<times> 's" where
  "draw_vines R W H s =
     (let (v1, s1) = draw_vine R 25 50 (H - 50) ''left'' 3 s;
          (v2, s2) = draw_vine R 15 200 (H - 100) ''left'' 1.8 s1;
          (v3, s3) = draw_vine R (W - 25) 80 (H - 50) ''right'' 3 s2;
          (v4, s4) = draw_vine R (W - 15) 250 (H - 100) ''right'' 1.8 s3
      in (v1 @ v2 @ v3 @ v4, s4))"

section \<open>Stage 6: fern carpet and ground gradient\<close>

definition fern_frond :: "real \<Rightarrow> real \<Rightarrow> nat \<Rightarrow> call list" where
  "fern_frond fern_h g j =
     (let fy = - (real j * 8);
          frond_len = (fern_h - real j * 8) * 0.4;
          side = (if j mod 2 = 0 then 1 else - 1)
      in [Set_source_rgba 0.18 (g * 1.1) 0.15 0.22,
          Set_line_width 0.6,
          Move_to 0 fy,
          Curve_to (side * frond_len * 0.5) (fy - 3) (side * frond_len) (fy - 1)
                   (side * frond_len) (fy + 2),
          Stroke])"

text \<open>The body of the fern loop from \<open>ctx.save()\<close> to \<open>ctx.restore()\<close>.\<close>

definition fern :: "real \<Rightarrow> real \<Rightarrow> real \<Rightarrow> real \<Rightarrow> real \<Rightarrow> call list" where
  "fern bx by' fern_h lean g =
     [Save,
      Translate bx by',
      Rotate lean,
      Set_source_rgba 0.15 g 0.12 0.3,
      Set_line_width 1.2,
      Move_to 0 0,
      Curve_to 3 (- fern_h * 0.3) (- 2) (- fern_h * 0.6) 1 (- fern_h),
      Stroke]
     @ concat (map (fern_frond fern_h g) [0..<nat (py_int (fern_h / 8))])
     @ [Restore]"

definition fern_step :: "'s rng \<Rightarrow> int \<Rightarrow> int \<Rightarrow> nat \<Rightarrow> 's \<Rightarrow> call list \<times> 's" where
  "fern_step R W H i s =
     (let (bx, s1) = uniform R (-20) (W + 20) s;
          (u, s2) = uniform R 10 120 s1;
          by' = H - u;
          (fern_h, s3) = uniform R 30 80 s2;
          (lean, s4) = uniform R (-0.3) 0.3 s3;
          (g, s5) = uniform R 0.3 0.55 s4
      in (fern bx by' fern_h lean g, s5))"

definition ferns :: "'s rng \<Rightarrow> int \<Rightarrow> int \<Rightarrow> 's \<Rightarrow> call list \<times> 's" where
  "ferns R W H s = for_rng (fern_step R W H) [0..<60] s"

definition ground :: "int \<Rightarrow> int \<Rightarrow> call list" where
  "ground W H =
     [Set_source (LinearGradient 0 (H - 80) 0 H
        [(0, 0.25, 0.48, 0.22, 0),
         (0.5, 0.22, 0.42, 0.18, 0.15),
         (1.0, 0.18, 0.38, 0.15, 0.3)]),
      Rectangle 0 (H - 80) W 80,
      Fill]"

section \<open>Stage 7: glass panels\<close>

definition panels :: "int \<Rightarrow> int \<Rightarrow> (real \<times> real \<times> real \<times> real) list" where
  "panels W H =
     [(W * 0.15, H * 0.18, 65, - 0.15),
      (W * 0.38, H * 0.12, 50, 0.1),
      (W * 0.60, H * 0.22, 55, - 0.08),
      (W * 0.28, H * 0.35, 40, 0.2),
      (W * 0.75, H * 0.15, 45, - 0.12)]"

definition panel_divider_v :: "real \<Rightarrow> real \<Rightarrow> nat \<Rightarrow> call list" where
  "panel_divider_v size' cell_w ci =
     (let xx = - size' + real ci * cell_w
      in [Move_to xx (- size' * 0.7), Line_to xx (size' * 0.7), Stroke])"

definition panel_divider_h :: "real \<Rightarrow> real \<Rightarrow> nat \<Rightarrow> call list" where
  "panel_divider_h size' cell_h cj =
     (let yy = - size' * 0.7 + real cj * cell_h
      in [Move_to (- size') yy, Line_to size' yy, Stroke])"

text \<open>The body of the panel loop from \<open>ctx.save()\<close> to \<open>ctx.restore()\<close>.\<close>

definition panel :: "real \<times> real \<times> real \<times> real \<Rightarrow> call list" where
  "panel p =
     (case p of (px, py, size', rot) \<Rightarrow>
        (let r = 6;
             cells_h = 4;
             cells_v = 3;
             cell_w = (size' * 2) / real cells_h;
             cell_h = (size' * 1.4) / real cells_v
         in [Save,
             Translate px py,
             Rotate rot,
             Move_to (- size' + r) (- size' * 0.7),
             Line_to (size' - r) (- size' * 0.7),
             Curve_to size' (- size' * 0.7) size' (- size' * 0.7) size' (- size' * 0.7 + r),
             Line_to size' (size' * 0.7 - r),
             Curve_to size' (size' * 0.7) size' (size' * 0.7) (size' - r) (size' * 0.7),
             Line_to (- size' + r) (size' * 0.7),
             Curve_to (- size') (size' * 0.7) (- size') (size' * 0.7) (- size') (size' * 0.7 - r),
             Line_to (- size') (- size' * 0.7 + r),
             Curve_to (- size') (- size' * 0.7) (- size') (- size' * 0.7) (- size' + r)
                      (- size' * 0.7),
             Close_path,
             Set_source (LinearGradient (- size') (- size' * 0.7) size' (size' * 0.7)
               [(0.0, 0.55, 0.82, 0.75, 0.08),
                (0.3, 0.40, 0.75, 0.65, 0.06),
                (0.7, 0.50, 0.80, 0.55, 0.07),
                (1.0, 0.65, 0.85, 0.50, 0.05)]),
             Fill_preserve,
             rgb 180 150 50 0.15,
             Set_line_width 1.5,
             Stroke,
             Set_line_width 0.5,
             rgb 160 140 60 0.1]
            @ concat (map (panel_divider_v size' cell_w) [1..<cells_h])
            @ concat (map (panel_divider_h size' cell_h) [1..<cells_v])
            @ [Move_to (- size' * 0.6) (- size' * 0.5),
               Line_to (- size' * 0.2) (- size' * 0.65),
               Set_line_width 2,
               rgb 255 255 240 0.12,
               Stroke,
               Restore]))"

definition draw_panels :: "int \<Rightarrow> int \<Rightarrow> call list" where
  "draw_panels W H = concat (map panel (panels W H))"

section \<open>Stage 8: corner ornaments\<close>

definition corner_arc :: "real \<Rightarrow> real \<Rightarrow> nat \<Rightarrow> call list" where
  "corner_arc a1 a2 i = [Arc 0 0 (80 + real i * 25) a1 a2, Stroke]"

definition corner_top_left :: "call list" where
  "corner_top_left =
     [Save,
      Set_line_width 1.5,
      rgb 160 140 50 0.12]
     @ concat (map (corner_arc 0 (pi / 2)) [0..<5])
     @ [Set_line_width 1,
        rgb 58 110 40 0.15,
        Move_to 0 120,
        Curve_to 40 100 80 60 120 0,
        Stroke,
        Move_to 0 160,
        Curve_to 60 140 110 90 160 0,
        Stroke,
        Restore]"

definition corner_top_right :: "int \<Rightarrow> call list" where
  "corner_top_right W =
     [Save,
      Translate W 0,
      Set_line_width 1.5,
      rgb 160 140 50 0.1]
     @ concat (map (corner_arc (pi / 2) pi) [0..<5])
     @ [Restore]"

definition corners :: "int \<Rightarrow> call list" where
  "corners W = corner_top_left @ corner_top_right W"

section \<open>Stage 9: floating leaves and pollen\<close>

text \<open>The body of the leaf loop from \<open>ctx.save()\<close> to \<open>ctx.restore()\<close>.\<close>

definition floating_leaf :: "real \<Rightarrow> real \<Rightarrow> real \<Rightarrow> real \<Rightarrow> real \<Rightarrow> real \<Rightarrow> call list" where
  "floating_leaf lx ly la ls g a =
     [Save,
      Translate lx ly,
      Rotate la,
      Move_to 0 0,
      Curve_to (ls * 0.3) (- ls * 0.25) (ls * 0.7) (- ls * 0.12) ls 0,
      Curve_to (ls * 0.7) (ls * 0.12) (ls * 0.3) (ls * 0.25) 0 0,
      Set_source_rgba 0.18 g 0.15 a,
      Fill,
      Restore]"

definition floating_leaf_step :: "'s rng \<Rightarrow> int \<Rightarrow> int \<Rightarrow> nat \<Rightarrow> 's \<Rightarrow> call list \<times> 's" where
  "floating_leaf_step R W H i s =
     (let (lx, s1) = uniform R 60 (W - 60) s;
          (ly, s2) = uniform R 80 (H * 0.55) s1;
          (la, s3) = uniform R 0 (2 * pi) s2;
          (ls, s4) = uniform R 8 18 s3;
          (g, s5) = uniform R 0.35 0.55 s4;
          (a, s6) = uniform R 0.06 0.15 s5
      in (floating_leaf lx ly la ls g a, s6))"

definition floating_leaves :: "'s rng \<Rightarrow> int \<Rightarrow> int \<Rightarrow> 's \<Rightarrow> call list \<times> 's" where
  "floating_leaves R W H s = for_rng (floating_leaf_step R W H) [0..<35] s"

definition pollen_step :: "'s rng \<Rightarrow> int \<Rightarrow> int \<Rightarrow> nat \<Rightarrow> 's \<Rightarrow> call list \<times> 's" where
  "pollen_step R W H i s =
     (let (px, s1) = uniform R 0 W s;
          (py, s2) = uniform R 0 (H * 0.85) s1;
          (ps, s3) = uniform R 0.8 3.0 s2;
          (src, s4) =
             (if i mod 3 = 0 then
                (let (a, t1) = uniform R 0.08 0.25 s3
                 in (Set_source_rgba 0.85 0.72 0.22 a, t1))
              else
                (let (g, t1) = uniform R 0.45 0.65 s3;
                     (a, t2) = uniform R 0.06 0.15 t1
                 in (Set_source_rgba 0.35 g 0.28 a, t2)))
      in ([src, Arc px py ps 0 (2 * pi), Fill], s4))"

definition pollen :: "'s rng \<Rightarrow> int \<Rightarrow> int \<Rightarrow> 's \<Rightarrow> call list \<times> 's" where
  "pollen R W H s = for_rng (pollen_step R W H) [0..<120] s"

section \<open>Stage 10: frame and grain\<close>

definition frame :: "int \<Rightarrow> int \<Rightarrow> call list" where
  "frame W H =
     (let margin = 30
      in [Set_line_width 1.0,
          rgb 160 140 50 0.08,
          Rectangle margin margin (W - 2 * margin) (H - 2 * margin),
          Stroke,
          rgb 58 110 40 0.06,
          Rectangle (margin + 8) (margin + 8) (W - 2 * (margin + 8)) (H - 2 * (margin + 8)),
          Stroke])"

definition grain_step :: "'s rng \<Rightarrow> int \<Rightarrow> int \<Rightarrow> nat \<Rightarrow> 's \<Rightarrow> call list \<times> 's" where
  "grain_step R W H i s =
     (let (tx, s1) = uniform R 0 W s;
          (ty, s2) = uniform R 0 H s1;
          (a, s3) = uniform R 0.01 0.025 s2;
          (r, s4) = uniform R 0.3 1.2 s3
      in ([Set_source_rgba 0.5 0.55 0.4 a, Arc tx ty r 0 (2 * pi), Fill], s4))"

definition grain :: "'s rng \<Rightarrow> int \<Rightarrow> int \<Rightarrow> 's \<Rightarrow> call list \<times> 's" where
  "grain R W H s = for_rng (grain_step R W H) [0..<3000] s"

section \<open>The pipeline\<close>

text \<open>Stages 1 and 2, drawn on the main context from the seeded state.\<close>

definition render_backdrop :: "'s rng \<Rightarrow> int \<Rightarrow> int \<Rightarrow> 's \<Rightarrow> call list \<times> 's" where
  "render_backdrop R W H s =
     (let (rays, s1) = sun_rays R W H s
      in (sky H @ sun_glow W H @ rays @ sun_core W H, s1))"

text \<open>
  The city layer: the buildings are generated, then \<open>draw_city_silhouette(cctx,
  alpha_mult=1.0)\<close> draws them on the context of \<open>city_surface\<close>. The result is the calls made
  on that context.
\<close>

definition city_layer :: "'s rng \<Rightarrow> int \<Rightarrow> int \<Rightarrow> 's \<Rightarrow> (call list \<times> 's) option" where
  "city_layer R W H s =
     (case gen_buildings R W [] (- 20) s of
        None \<Rightarrow> None
      | Some (buildings, s1) \<Rightarrow> Some (draw_city_silhouette R H buildings 1.0 0 0 s1))"

text \<open>
  Both layers are written out, \<open>convert\<close> blurs the city layer, and the blurred file is
  loaded as \<open>blurred_city\<close>.
\<close>

definition blur_city ::
  "int \<Rightarrow> int \<Rightarrow> call list \<Rightarrow> call list \<Rightarrow> files \<Rightarrow> error + image \<times> files" where
  "blur_city W H city main fs =
     (let fs1 = write_to_png W H city city_layer_png fs;
          fs2 = write_to_png W H main base_layer_png fs1
      in case subprocess_run convert_argv fs2 of
           Inl e \<Rightarrow> Inl e
         | Inr fs3 \<Rightarrow>
             (case create_from_png city_blurred_png fs3 of
                Inl e \<Rightarrow> Inl e
              | Inr blurred_city \<Rightarrow> Inr (blurred_city, fs3)))"

text \<open>Everything drawn on the main context after the city has been composited.\<close>

definition render_foreground :: "'s rng \<Rightarrow> int \<Rightarrow> int \<Rightarrow> 's \<Rightarrow> call list \<times> 's" where
  "render_foreground R W H s =
     (let (hs, s1) = draw_hills R W H s;
          (vs, s2) = draw_vines R W H s1;
          (fs, s3) = ferns R W H s2;
          (ls, s4) = floating_leaves R W H s3;
          (ps, s5) = pollen R W H s4;
          (gs, s6) = grain R W H s5
      in (haze W H @ hs @ vs @ fs @ ground W H @ draw_panels W H @ corners W
          @ ls @ ps @ frame W H @ gs, s6))"

record 's outcome =
  out_main :: "call list"
  out_city :: "call list"
  out_files :: files
  out_rng :: 's

text \<open>
  The whole script for seed \<open>seed\<close> and canvas \<open>W\<close> by \<open>H\<close> (42 and 1800 by 1200 in the source),
  started on the file system \<open>fs\<close>. \<open>None\<close>: the building loop does not end; \<open>Inl\<close>: the script
  stops with an exception.
\<close>

definition generate ::
  "'s rng \<Rightarrow> int \<Rightarrow> int \<Rightarrow> int \<Rightarrow> files \<Rightarrow> (error + 's outcome) option" where
  "generate R seed W H fs =
     (let (backdrop, s1) = render_backdrop R W H (rng_seed R seed)
      in case city_layer R W H s1 of
           None \<Rightarrow> None
         | Some (city, s2) \<Rightarrow>
             (case blur_city W H city backdrop fs of
                Inl e \<Rightarrow> Some (Inl e)
              | Inr (blurred_city, fs1) \<Rightarrow>
                  (let (foreground, s3) = render_foreground R W H s2;
                       main = backdrop @ composite_city blurred_city @ foreground
                   in Some (Inr \<lparr> out_main = main,
                                   out_city = city,
                                   out_files = write_to_png W H main solarpunk_bg_png fs1,
                                   out_rng = s3 \<rparr>))))"

section \<open>Graphics state: save and restore\<close>

text \<open>
  What \<open>save()\<close> and \<open>restore()\<close> scope: the part of a Cairo context that \<open>save()\<close> pushes on
  the context's stack and \<open>restore()\<close> pops, as far as the script sets it. The transformation
  is kept as the list of transforms applied so far.
\<close>

datatype xform = Translated real real | Rotated real

datatype source =
    Rgba_source real real real real
  | Pattern_source pattern
  | Surface_source image real real

record gstate =
  gs_ctm :: "xform list"
  gs_source :: source
  gs_line_width :: real
  gs_line_cap :: line_cap

text \<open>
  The effect of one call on the current state and the stack of saved states. A
  \<open>restore()\<close> without a saved state is an error of Cairo. Path construction and painting
  leave the state as it is.
\<close>

fun apply_call :: "call \<Rightarrow> gstate \<times> gstate list \<Rightarrow> (gstate \<times> gstate list) option" where
  "apply_call Save (g, stack) = Some (g, g # stack)"
| "apply_call Restore (g, stack) =
     (case stack of [] \<Rightarrow> None | g' # stack' \<Rightarrow> Some (g', stack'))"
| "apply_call (Translate tx ty) (g, stack) =
     Some (g\<lparr>gs_ctm := gs_ctm g @ [Translated tx ty]\<rparr>, stack)"
| "apply_call (Rotate a) (g, stack) = Some (g\<lparr>gs_ctm := gs_ctm g @ [Rotated a]\<rparr>, stack)"
| "apply_call (Set_source_rgba r gr b a) (g, stack) =
     Some (g\<lparr>gs_source := Rgba_source r gr b a\<rparr>, stack)"
| "apply_call (Set_source p) (g, stack) = Some (g\<lparr>gs_source := Pattern_source p\<rparr>, stack)"
| "apply_call (Set_source_surface img x y) (g, stack) =
     Some (g\<lparr>gs_source := Surface_source img x y\<rparr>, stack)"
| "apply_call (Set_line_width w) (g, stack) = Some (g\<lparr>gs_line_width := w\<rparr>, stack)"
| "apply_call (Set_line_cap c) (g, stack) = Some (g\<lparr>gs_line_cap := c\<rparr>, stack)"
| "apply_call _ (g, stack) = Some (g, stack)"

fun run_calls :: "call list \<Rightarrow> gstate \<times> gstate list \<Rightarrow> (gstate \<times> gstate list) option" where
  "run_calls [] st = Some st"
| "run_calls (c # cs) st =
     (case apply_call c st of None \<Rightarrow> None | Some st' \<Rightarrow> run_calls cs st')"

text \<open>
  The script has no \<open>try\<close> statement: when call number \<open>k\<close> of a block raises, the calls made
  are the \<open>k\<close> before it and nothing of the block runs after.
\<close>

definition aborted_at :: "nat \<Rightarrow> call list \<Rightarrow> call list" where
  "aborted_at k block = take k block"

text \<open>
  A call that neither saves, restores nor transforms; and a list of calls that, run from any
  state, ends with the same stack of saved states and the same transformation.
\<close>

fun plain :: "call \<Rightarrow> bool" where
  "plain Save = False"
| "plain Restore = False"
| "plain (Translate tx ty) = False"
| "plain (Rotate a) = False"
| "plain _ = True"

definition scoped :: "call list \<Rightarrow> bool" where
  "scoped cs \<longleftrightarrow>
     (\<forall>g stack. \<exists>g'. run_calls cs (g, stack) = Some (g', stack) \<and> gs_ctm g' = gs_ctm g)"

text \<open>The graphics state of a new context: Cairo's defaults.\<close>

definition initial_gstate :: gstate where
  "initial_gstate = \<lparr> gs_ctm = [], gs_source = Rgba_source 0 0 0 1, gs_line_width = 2,
                       gs_line_cap = LINE_CAP_BUTT \<rparr>"

section \<open>Colour of a linear gradient\<close>

text \<open>
  Cairo's rule for a gradient pattern: the colour at an offset is interpolated linearly
  between the two neighbouring stops, and is the colour of the nearest stop outside them.
  The offset of a point for a linear gradient from \<open>(x0, y0)\<close> to \<open>(x1, y1)\<close> is its
  projection on that segment.
\<close>

definition mix :: "rgba \<Rightarrow> rgba \<Rightarrow> real \<Rightarrow> rgba" where
  "mix c d t =
     (case c of (r1, g1, b1, a1) \<Rightarrow>
        (case d of (r2, g2, b2, a2) \<Rightarrow>
           (r1 + (r2 - r1) * t, g1 + (g2 - g1) * t, b1 + (b2 - b1) * t, a1 + (a2 - a1) * t)))"

fun gradient_at :: "color_stop list \<Rightarrow> real \<Rightarrow> rgba" where
  "gradient_at [] t = (0, 0, 0, 0)"
| "gradient_at [(off, c)] t = c"
| "gradient_at ((off1, c1) # (off2, c2) # stops) t =
     (if t \<le> off1 then c1
      else if t < off2 then mix c1 c2 ((t - off1) / (off2 - off1))
      else gradient_at ((off2, c2) # stops) t)"

definition linear_offset :: "real \<Rightarrow> real \<Rightarrow> real \<Rightarrow> real \<Rightarrow> real \<Rightarrow> real \<Rightarrow> real" where
  "linear_offset x0 y0 x1 y1 x y =
     ((x - x0) * (x1 - x0) + (y - y0) * (y1 - y0)) / ((x1 - x0)\<^sup>2 + (y1 - y0)\<^sup>2)"

text \<open>
  The colour a list of calls that sets a linear gradient and paints it leaves at the point
  \<open>(x, y)\<close> of an untransformed surface; \<open>None\<close> for any other list of calls.
\<close>

fun painted_color :: "call list \<Rightarrow> real \<Rightarrow> real \<Rightarrow> rgba option" where
  "painted_color [Set_source (LinearGradient x0 y0 x1 y1 stops), Paint] x y =
     Some (gradient_at stops (linear_offset x0 y0 x1 y1 x y))"
| "painted_color _ x y = None"

text \<open>Two colours agree within \<open>eps\<close> in every channel.\<close>

definition close_to :: "real \<Rightarrow> rgba \<Rightarrow> rgba \<Rightarrow> bool" where
  "close_to eps c d =
     (case c of (r1, g1, b1, a1) \<Rightarrow>
        (case d of (r2, g2, b2, a2) \<Rightarrow>
           \<bar>r1 - r2\<bar> \<le> eps \<and> \<bar>g1 - g2\<bar> \<le> eps \<and> \<bar>b1 - b2\<bar> \<le> eps \<and> \<bar>a1 - a2\<bar> \<le> eps))"

section \<open>The wallet-integration stub writer\<close>

text \<open>
  \<open>write_pivx_module.py\<close> holds one string literal, \<open>content\<close>, and writes it to a file. The
  literal is given here line by line, as the bytes of its UTF-8 encoding; every line of the
  literal ends with a newline.
\<close>

definition content_lines_00 :: "string list" where
  "content_lines_00 =
     [''// pivx_integration.rs - Int'' @ [CHR 0xC3, CHR 0xA9] @ ''gration PIVX pour Janus Monitor'',
      ''// Ce module g'' @ [CHR 0xC3, CHR 0xA8] @ ''re les appels RPC PIVX et la gestion des wallets PIVX'',
      '''',
      ''use serde::{Deserialize, Serialize};'',
      ''use std::time::{SystemTime, UNIX_EPOCH};'',
      ''use reqwest::Client;'',
      ''use crate::{secure_log, log_address, log_balance};'',
      '''',
      ''// ============================================================================'',
      ''// STRUCTURES DE DONN'' @ [CHR 0xC3, CHR 0x89] @ ''ES PIVX'',
      ''// ============================================================================'',
      '''',
      ''/// Informations sur un n'' @ [CHR 0xC5, CHR 0x93] @ ''ud PIVX'',
      ''#[derive(Debug, Clone, Serialize, Deserialize)]'',
      ''pub struct PivxNodeInfo {'',
      ''    pub url: String,'',
      ''    pub block_height: u64,'',
      ''    pub version: String,'',
      ''    pub response_time_ms: u64,'',
      ''    pub is_healthy: bool,'',
      ''}'',
      '''',
      ''/// R'' @ [CHR 0xC3, CHR 0xA9] @ ''sultat de balance PIVX (inclut zPIV et balance r'' @ [CHR 0xC3, CHR 0xA9] @ ''guli'' @ [CHR 0xC3, CHR 0xA8] @ ''re)'',
      ''#[derive(Debug, Clone, Serialize, Deserialize)]'',
      ''pub struct PivxBalanceResult {'',
      ''    pub zerocoin_balance: f64,      // Balance des zPIV (anonymes)'',
      ''    pub regular_balance: f64,      // Balance des PIVX r'' @ [CHR 0xC3, CHR 0xA9] @ ''guliers'',
      ''    pub total_balance: f64,         // Balance totale'',
      ''    pub transactions: Vec<PivxTransaction>,'',
      ''}'',
      '''',
      ''/// Transaction PIVX'',
      ''#[derive(Debug, Clone, Serialize, Deserialize)]'',
      ''pub struct PivxTransaction {'',
      ''    pub txid: String,'',
      ''    pub amount: f64,'',
      ''    pub timestamp: i64,'',
      ''    pub confirmations: u64,'',
      ''    pub is_zerocoin: bool,          // True si c'' @ [CHR 0x27] @ ''est une transaction zPIV'',
      ''    pub is_incoming: bool,'',
      ''}'',
      '''',
      ''/// Donn'' @ [CHR 0xC3, CHR 0xA9] @ ''es de wallet PIVX pour les appels backend'',
      ''#[derive(Debug, Clone, Serialize, Deserialize)]'',
      ''pub struct PivxWalletData {'',
      ''    pub address: String,'',
      ''    pub rpc_user: Option<String>,'',
      ''    pub rpc_password: Option<String>,'',
      ''    pub rpc_node: String,'',
      ''    pub zerocoin_min_confirmations: u64,'']"

definition content_lines_01 :: "string list" where
  "content_lines_01 =
     [''    pub regular_min_confirmations: u64,'',
      ''}'',
      '''',
      ''/// Erreur PIVX personnalis'' @ [CHR 0xC3, CHR 0xA9] @ ''e'',
      ''#[derive(Debug, thiserror::Error)]'',
      ''pub enum PivxError {'',
      ''    #[error('' @ [CHR 0x22] @ ''Adresse PIVX invalide: {0}'' @ [CHR 0x22] @ '')]'',
      ''    InvalidAddress(String),'',
      ''    '',
      ''    #[error('' @ [CHR 0x22] @ ''Credentials RPC invalides: {0}'' @ [CHR 0x22] @ '')]'',
      ''    InvalidRpcCredentials(String),'',
      ''    '',
      ''    #[error('' @ [CHR 0x22] @ ''URL du n'' @ [CHR 0xC5, CHR 0x93] @ ''ud PIVX invalide: {0}'' @ [CHR 0x22] @ '')]'',
      ''    InvalidNodeUrl(String),'',
      ''    '',
      ''    #[error('' @ [CHR 0x22, CHR 0xC3, CHR 0x89] @ ''chec de la connexion au n'' @ [CHR 0xC5, CHR 0x93] @ ''ud PIVX: {0}'' @ [CHR 0x22] @ '')]'',
      ''    NodeConnectionFailed(String),'',
      ''    '',
      ''    #[error('' @ [CHR 0x22, CHR 0xC3, CHR 0x89] @ ''chec de l'' @ [CHR 0x27] @ ''appel RPC: {0}'' @ [CHR 0x22] @ '')]'',
      ''    RpcCallFailed(String),'',
      ''    '',
      ''    #[error('' @ [CHR 0x22] @ ''Balance introuvable pour l'' @ [CHR 0x27] @ ''adresse'' @ [CHR 0x22] @ '')]'',
      ''    BalanceNotFound,'',
      ''    '',
      ''    #[error('' @ [CHR 0x22] @ ''Timeout de la requ'' @ [CHR 0xC3, CHR 0xAA] @ ''te'' @ [CHR 0x22] @ '')]'',
      ''    RequestTimeout,'',
      ''}'',
      '''',
      ''impl Serialize for PivxError {'',
      ''    fn serialize<S>(&self, serializer: S) -> Result<S::Ok, S::Error>'',
      ''    where'',
      ''        S: serde::Serializer,'',
      ''    {'',
      ''        serializer.serialize_str(self.to_string().as_ref())'',
      ''    }'',
      ''}'',
      '''',
      ''// ============================================================================'',
      ''// VALIDATION PIVX'',
      ''// ============================================================================'',
      '''',
      ''/// Valider une adresse PIVX'',
      ''pub fn validate_pivx_address(address: &str) -> Result<(), PivxError> {'',
      ''    // Une adresse PIVX valide fait entre 25 et 35 caract'' @ [CHR 0xC3, CHR 0xA8] @ ''res'',
      ''    if address.len() < 25 || address.len() > 35 {'',
      ''        return Err(PivxError::InvalidAddress(format!('',
      ''            '' @ [CHR 0x22] @ ''Longueur incorrecte: {} (attendu: 25-35)'' @ [CHR 0x22] @ '', address.len()'',
      ''        )));'',
      ''    }'',
      ''    '']"

definition content_lines_02 :: "string list" where
  "content_lines_02 =
     [''    // V'' @ [CHR 0xC3, CHR 0xA9] @ ''rifier que tous les caract'' @ [CHR 0xC3, CHR 0xA8] @ ''res sont valides (base58)'',
      ''    for c in address.chars() {'',
      ''        if !c.is_ascii_alphanumeric() {'',
      ''            return Err(PivxError::InvalidAddress('',
      ''                format!('' @ [CHR 0x22] @ ''Caract'' @ [CHR 0xC3, CHR 0xA8] @ ''re invalide: {}'' @ [CHR 0x22] @ '', c)'',
      ''            ));'',
      ''        }'',
      ''    }'',
      ''    '',
      ''    // Les adresses PIVX commencent g'' @ [CHR 0xC3, CHR 0xA9] @ ''n'' @ [CHR 0xC3, CHR 0xA9] @ ''ralement par D, mais ce n'' @ [CHR 0x27] @ ''est pas une r'' @ [CHR 0xC3, CHR 0xA8] @ ''gle stricte'',
      ''    // pour toutes les versions, donc nous ne v'' @ [CHR 0xC3, CHR 0xA9] @ ''rifions pas le pr'' @ [CHR 0xC3, CHR 0xA9] @ ''fixe'',
      ''    '',
      ''    Ok(())'',
      ''}'',
      '''',
      ''/// Valider les credentials RPC PIVX (optionnels)'',
      ''pub fn validate_rpc_credentials(rpc_user: &Option<String>, rpc_password: &Option<String>) -> Result<(), PivxError> {'',
      ''    // Si des credentials sont fournis, ils ne doivent pas '' @ [CHR 0xC3, CHR 0xAA] @ ''tre vides'',
      ''    if let (Some(user), Some(pass)) = (rpc_user, rpc_password) {'',
      ''        if user.is_empty() || pass.is_empty() {'',
      ''            return Err(PivxError::InvalidRpcCredentials('',
      ''                '' @ [CHR 0x22] @ ''Les credentials RPC ne peuvent pas '' @ [CHR 0xC3, CHR 0xAA] @ ''tre vides'' @ [CHR 0x22] @ ''.to_string()'',
      ''            ));'',
      ''        }'',
      ''    }'',
      ''    '',
      ''    Ok(())'',
      ''}'',
      '''',
      ''/// Valider l'' @ [CHR 0x27] @ ''URL du n'' @ [CHR 0xC5, CHR 0x93] @ ''ud PIVX'',
      ''pub fn validate_pivx_node_url(url: &str) -> Result<(), PivxError> {'',
      ''    if url.is_empty() {'',
      ''        return Err(PivxError::InvalidNodeUrl('',
      ''            '' @ [CHR 0x22] @ ''URL du n'' @ [CHR 0xC5, CHR 0x93] @ ''ud vide'' @ [CHR 0x22] @ ''.to_string()'',
      ''        ));'',
      ''    }'',
      ''    '',
      ''    // V'' @ [CHR 0xC3, CHR 0xA9] @ ''rification basique que l'' @ [CHR 0x27] @ ''URL contient un protocole et un h'' @ [CHR 0xC3, CHR 0xB4] @ ''te'',
      ''    if !url.contains('' @ [CHR 0x22] @ ''://'' @ [CHR 0x22] @ '') {'',
      ''        return Err(PivxError::InvalidNodeUrl('',
      ''            format!('' @ [CHR 0x22] @ ''URL invalide (manque ://): {}'' @ [CHR 0x22] @ '', url)'',
      ''        ));'',
      ''    }'',
      ''    '',
      ''    Ok(())'',
      ''}'',
      '''',
      ''/// Valider les donn'' @ [CHR 0xC3, CHR 0xA9] @ ''es compl'' @ [CHR 0xC3, CHR 0xA8] @ ''tes du wallet PIVX'',
      ''pub fn validate_pivx_wallet_data(data: &PivxWalletData) -> Result<(), PivxError> {'',
      ''    validate_pivx_address(&data.address)?;'']"

definition content_lines_03 :: "string list" where
  "content_lines_03 =
     [''    validate_rpc_credentials(&data.rpc_user, &data.rpc_password)?;'',
      ''    validate_pivx_node_url(&data.rpc_node)?;'',
      ''    '',
      ''    Ok(())'',
      ''}'',
      '''',
      ''// ============================================================================'',
      ''// CLIENT PIVX RPC'',
      ''// ============================================================================'',
      '''',
      ''/// Client pour les appels RPC PIVX'',
      ''pub struct PivxRpcClient {'',
      ''    client: Client,'',
      ''    rpc_url: String,'',
      ''    rpc_user: Option<String>,'',
      ''    rpc_password: Option<String>,'',
      ''    timeout: std::time::Duration,'',
      ''}'',
      '''',
      ''impl PivxRpcClient {'',
      ''    /// Cr'' @ [CHR 0xC3, CHR 0xA9] @ ''er un nouveau client PIVX RPC'',
      ''    pub fn new(rpc_node: &str, rpc_user: Option<String>, rpc_password: Option<String>) -> Self {'',
      ''        Self {'',
      ''            client: Client::new(),'',
      ''            rpc_url: rpc_node.to_string(),'',
      ''            rpc_user,'',
      ''            rpc_password,'',
      ''            timeout: std::time::Duration::from_secs(30),'',
      ''        }'',
      ''    }'',
      ''    '',
      ''    /// Tester la connexion au n'' @ [CHR 0xC5, CHR 0x93] @ ''ud PIVX'',
      ''    pub async fn test_connection(&self) -> Result<PivxNodeInfo, PivxError> {'',
      ''        let start_time = SystemTime::now();'',
      ''        '',
      ''        let request_body = serde_json::json!({'',
      ''            '' @ [CHR 0x22] @ ''jsonrpc'' @ [CHR 0x22] @ '': '' @ [CHR 0x22] @ ''2.0'' @ [CHR 0x22] @ '','',
      ''            '' @ [CHR 0x22] @ ''id'' @ [CHR 0x22] @ '': '' @ [CHR 0x22] @ ''janus-monitor'' @ [CHR 0x22] @ '','',
      ''            '' @ [CHR 0x22] @ ''method'' @ [CHR 0x22] @ '': '' @ [CHR 0x22] @ ''getblockchaininfo'' @ [CHR 0x22] @ '','',
      ''            '' @ [CHR 0x22] @ ''params'' @ [CHR 0x22] @ '': []'',
      ''        });'',
      ''        '',
      ''        let client = Client::new();'',
      ''        let response = client'',
      ''            .post(&self.rpc_url)'',
      ''            .json(&request_body)'',
      ''            .timeout(self.timeout)'',
      ''            .send()'',
      ''            .await'',
      ''            .map_err(|e| PivxError::NodeConnectionFailed(e.to_string()))?;'']"

definition content_lines_04 :: "string list" where
  "content_lines_04 =
     [''            '',
      ''        if !response.status().is_success() {'',
      ''            return Err(PivxError::NodeConnectionFailed(format!('',
      ''                '' @ [CHR 0x22] @ ''Statut HTTP {}: {}'' @ [CHR 0x22] @ '', '',
      ''                response.status(), '',
      ''                response.text().await.unwrap_or_default()'',
      ''            )));'',
      ''        }'',
      ''        '',
      ''        let response_json: serde_json::Value = response'',
      ''            .json()'',
      ''            .await'',
      ''            .map_err(|e| PivxError::RpcCallFailed(e.to_string()))?;'',
      ''            '',
      ''        let response_time = start_time.elapsed().unwrap_or_default().as_millis() as u64;'',
      ''        '',
      ''        // Extraire les informations'',
      ''        let blocks = response_json['' @ [CHR 0x22] @ ''result'' @ [CHR 0x22] @ '']['' @ [CHR 0x22] @ ''blocks'' @ [CHR 0x22] @ ''].as_u64().unwrap_or(0);'',
      ''        let version = response_json['' @ [CHR 0x22] @ ''result'' @ [CHR 0x22] @ '']['' @ [CHR 0x22] @ ''version'' @ [CHR 0x22] @ ''].as_str().unwrap_or('' @ [CHR 0x22] @ ''inconnu'' @ [CHR 0x22] @ '').to_string();'',
      ''        '',
      ''        secure_log('' @ [CHR 0x22] @ ''PIVX'' @ [CHR 0x22] @ '', &format!('' @ [CHR 0x22] @ ''Connexion r'' @ [CHR 0xC3, CHR 0xA9] @ ''ussie au n'' @ [CHR 0xC5, CHR 0x93] @ ''ud {} - hauteur: {}'' @ [CHR 0x22] @ '', self.rpc_url, blocks));'',
      ''        '',
      ''        Ok(PivxNodeInfo {'',
      ''            url: self.rpc_url.clone(),'',
      ''            block_height: blocks,'',
      ''            version,'',
      ''            response_time_ms: response_time,'',
      ''            is_healthy: true,'',
      ''        })'',
      ''    }'',
      ''    '',
      ''    /// Obtenir la balance pour un wallet PIVX'',
      ''    pub async fn get_balance('',
      ''        &self,'',
      ''        address: &str,'',
      ''    ) -> Result<PivxBalanceResult, PivxError> {'',
      ''        // TODO: Impl'' @ [CHR 0xC3, CHR 0xA9] @ ''mentation r'' @ [CHR 0xC3, CHR 0xA9] @ ''elle avec PIVX RPC'',
      ''        // Pour l'' @ [CHR 0x27] @ ''instant, retournons des donn'' @ [CHR 0xC3, CHR 0xA9] @ ''es de test'',
      ''        '',
      ''        log_address('' @ [CHR 0x22] @ ''PIVX'' @ [CHR 0x22] @ '', address);'',
      ''        '',
      ''        // Simuler un d'' @ [CHR 0xC3, CHR 0xA9] @ ''lai de requ'' @ [CHR 0xC3, CHR 0xAA] @ ''te'',
      ''        tokio::time::sleep(std::time::Duration::from_secs(1)).await;'',
      ''        '',
      ''        // Donn'' @ [CHR 0xC3, CHR 0xA9] @ ''es de test - '' @ [CHR 0xC3, CHR 0xA0] @ '' remplacer par l'' @ [CHR 0x27] @ ''appel RPC r'' @ [CHR 0xC3, CHR 0xA9] @ ''el'',
      ''        Ok(PivxBalanceResult {'',
      ''            zerocoin_balance: 5.25,'',
      ''            regular_balance: 12.75,'',
      ''            total_balance: 18.0,'',
      ''            transactions: vec!['']"

definition content_lines_05 :: "string list" where
  "content_lines_05 =
     [''                PivxTransaction {'',
      ''                    txid: '' @ [CHR 0x22] @ ''pivx_tx1_a1b2c3d4e5f6a1b2c3d4e5f6a1b2c3d4e5f6a1b2c3d4e5f6a1b2'' @ [CHR 0x22] @ ''.to_string(),'',
      ''                    amount: 3.5,'',
      ''                    timestamp: UNIX_EPOCH.elapsed().unwrap().as_secs() as i64 - 3600, // Il y a 1 heure'',
      ''                    confirmations: 8,'',
      ''                    is_zerocoin: true,  // Transaction zPIV'',
      ''                    is_incoming: true,'',
      ''                },'',
      ''                PivxTransaction {'',
      ''                    txid: '' @ [CHR 0x22] @ ''pivx_tx2_f6e5d4c3b2a1f6e5d4c3b2a1f6e5d4c3b2a1f6e5d4c3b2a1f6e5'' @ [CHR 0x22] @ ''.to_string(),'',
      ''                    amount: 2.0,'',
      ''                    timestamp: UNIX_EPOCH.elapsed().unwrap().as_secs() as i64 - 7200, // Il y a 2 heures'',
      ''                    confirmations: 12,'',
      ''                    is_zerocoin: false, // Transaction r'' @ [CHR 0xC3, CHR 0xA9] @ ''guli'' @ [CHR 0xC3, CHR 0xA8] @ ''re'',
      ''                    is_incoming: true,'',
      ''                }'',
      ''            ],'',
      ''        })'',
      ''    }'',
      ''    '',
      ''    /// Obtenir l'' @ [CHR 0x27] @ ''historique des transactions PIVX'',
      ''    pub async fn get_transactions('',
      ''        &self,'',
      ''        address: &str,'',
      ''        limit: u64,'',
      ''    ) -> Result<Vec<PivxTransaction>, PivxError> {'',
      ''        // TODO: Impl'' @ [CHR 0xC3, CHR 0xA9] @ ''mentation r'' @ [CHR 0xC3, CHR 0xA9] @ ''elle'',
      ''        '',
      ''        log_address('' @ [CHR 0x22] @ ''PIVX'' @ [CHR 0x22] @ '', address);'',
      ''        '',
      ''        // Simuler un d'' @ [CHR 0xC3, CHR 0xA9] @ ''lai'',
      ''        tokio::time::sleep(std::time::Duration::from_secs(1)).await;'',
      ''        '',
      ''        // Donn'' @ [CHR 0xC3, CHR 0xA9] @ ''es de test'',
      ''        Ok(vec!['',
      ''            PivxTransaction {'',
      ''                txid: '' @ [CHR 0x22] @ ''pivx_hist1_a1b2c3d4e5f6a1b2c3d4e5f6a1b2c3d4e5f6a1b2c3d4e5f6a1b2'' @ [CHR 0x22] @ ''.to_string(),'',
      ''                amount: 1.5,'',
      ''                timestamp: UNIX_EPOCH.elapsed().unwrap().as_secs() as i64 - 1800, // Il y a 30 minutes'',
      ''                confirmations: 3,'',
      ''                is_zerocoin: false,'',
      ''                is_incoming: true,'',
      ''            },'',
      ''            PivxTransaction {'',
      ''                txid: '' @ [CHR 0x22] @ ''pivx_hist2_f6e5d4c3b2a1f6e5d4c3b2a1f6e5d4c3b2a1f6e5d4c3b2a1f6e5'' @ [CHR 0x22] @ ''.to_string(),'',
      ''                amount: 0.8,'',
      ''                timestamp: UNIX_EPOCH.elapsed().unwrap().as_secs() as i64 - 3600, // Il y a 1 heure'',
      ''                confirmations: 6,'',
      ''                is_zerocoin: true,'',
      ''                is_incoming: true,'']"

definition content_lines_06 :: "string list" where
  "content_lines_06 =
     [''            }'',
      ''        ])'',
      ''    }'',
      ''}'',
      '''',
      ''// ============================================================================'',
      ''// COMMANDES TAURI - PIVX'',
      ''// ============================================================================'',
      '''',
      ''/// Tester un n'' @ [CHR 0xC5, CHR 0x93] @ ''ud PIVX'',
      ''#[tauri::command]'',
      ''pub async fn test_pivx_node('',
      ''    rpc_node: String,'',
      ''    rpc_user: Option<String>,'',
      ''    rpc_password: Option<String>,'',
      '') -> Result<PivxNodeInfo, String> {'',
      ''    secure_log('' @ [CHR 0x22] @ ''PIVX'' @ [CHR 0x22] @ '', &format!('' @ [CHR 0x22] @ ''Test du n'' @ [CHR 0xC5, CHR 0x93] @ ''ud: {}'' @ [CHR 0x22] @ '', rpc_node));'',
      ''    '',
      ''    let client = PivxRpcClient::new(&rpc_node, rpc_user, rpc_password);'',
      ''    '',
      ''    match client.test_connection().await {'',
      ''        Ok(node_info) => {'',
      ''            log_balance('' @ [CHR 0x22] @ ''PIVX'' @ [CHR 0x22] @ '', node_info.block_height as f64);'',
      ''            Ok(node_info)'',
      ''        },'',
      ''        Err(e) => {'',
      ''            Err(format!('' @ [CHR 0x22] @ ''Erreur test n'' @ [CHR 0xC5, CHR 0x93] @ ''ud PIVX: {}'' @ [CHR 0x22] @ '', e.to_string()))'',
      ''        }'',
      ''    }'',
      ''}'',
      '''',
      ''/// Obtenir la balance PIVX'',
      ''#[tauri::command]'',
      ''pub async fn get_pivx_balance('',
      ''    address: String,'',
      ''    rpc_user: Option<String>,'',
      ''    rpc_password: Option<String>,'',
      ''    rpc_node: String,'',
      ''    zerocoin_min_confirmations: u64,'',
      ''    regular_min_confirmations: u64,'',
      '') -> Result<PivxBalanceResult, String> {'',
      ''    secure_log('' @ [CHR 0x22] @ ''PIVX'' @ [CHR 0x22] @ '', &format!('' @ [CHR 0x22] @ ''R'' @ [CHR 0xC3, CHR 0xA9] @ ''cup'' @ [CHR 0xC3, CHR 0xA9] @ ''ration balance pour: {}'' @ [CHR 0x22] @ '', address));'',
      ''    '',
      ''    // Valider les donn'' @ [CHR 0xC3, CHR 0xA9] @ ''es'',
      ''    let wallet_data = PivxWalletData {'',
      ''        address: address.clone(),'',
      ''        rpc_user,'',
      ''        rpc_password,'',
      ''        rpc_node: rpc_node.clone(),'',
      ''        zerocoin_min_confirmations,'']"

definition content_lines_07 :: "string list" where
  "content_lines_07 =
     [''        regular_min_confirmations,'',
      ''    };'',
      ''    '',
      ''    if let Err(e) = validate_pivx_wallet_data(&wallet_data) {'',
      ''        return Err(format!('' @ [CHR 0x22] @ ''Donn'' @ [CHR 0xC3, CHR 0xA9] @ ''es wallet invalides: {}'' @ [CHR 0x22] @ '', e.to_string()));'',
      ''    }'',
      ''    '',
      ''    let client = PivxRpcClient::new(&rpc_node, rpc_user, rpc_password);'',
      ''    '',
      ''    match client.get_balance(&address).await {'',
      ''        Ok(balance_result) => {'',
      ''            log_balance('' @ [CHR 0x22] @ ''PIVX'' @ [CHR 0x22] @ '', balance_result.total_balance);'',
      ''            Ok(balance_result)'',
      ''        },'',
      ''        Err(e) => {'',
      ''            Err(format!('' @ [CHR 0x22] @ ''Erreur balance PIVX: {}'' @ [CHR 0x22] @ '', e.to_string()))'',
      ''        }'',
      ''    }'',
      ''}'',
      '''',
      ''/// Obtenir l'' @ [CHR 0x27] @ ''historique des transactions PIVX'',
      ''#[tauri::command]'',
      ''pub async fn get_pivx_transactions('',
      ''    address: String,'',
      ''    rpc_user: Option<String>,'',
      ''    rpc_password: Option<String>,'',
      ''    rpc_node: String,'',
      ''    limit: u64,'',
      '') -> Result<Vec<PivxTransaction>, String> {'',
      ''    secure_log('' @ [CHR 0x22] @ ''PIVX'' @ [CHR 0x22] @ '', &format!('' @ [CHR 0x22] @ ''R'' @ [CHR 0xC3, CHR 0xA9] @ ''cup'' @ [CHR 0xC3, CHR 0xA9] @ ''ration historique pour: {}'' @ [CHR 0x22] @ '', address));'',
      ''    '',
      ''    let client = PivxRpcClient::new(&rpc_node, rpc_user, rpc_password);'',
      ''    '',
      ''    match client.get_transactions(&address, limit).await {'',
      ''        Ok(transactions) => {'',
      ''            Ok(transactions)'',
      ''        },'',
      ''        Err(e) => {'',
      ''            Err(format!('' @ [CHR 0x22] @ ''Erreur historique PIVX: {}'' @ [CHR 0x22] @ '', e.to_string()))'',
      ''        }'',
      ''    }'',
      ''}'',
      '''',
      ''// ============================================================================'',
      ''// FONCTIONS D'' @ [CHR 0x27] @ ''UTILITAIRE PIVX'',
      ''// ============================================================================'',
      '''',
      ''/// Masquer les credentials RPC PIVX (pour les logs)'',
      ''pub fn mask_pivx_credentials(rpc_user: &Option<String>, rpc_password: &Option<String>) -> String {'',
      ''    match (rpc_user, rpc_password) {'']"

definition content_lines_08 :: "string list" where
  "content_lines_08 =
     [''        (Some(user), Some(pass)) => {'',
      ''            if user.is_empty() && pass.is_empty() {'',
      ''                '' @ [CHR 0x22] @ ''Aucun credential'' @ [CHR 0x22] @ ''.to_string()'',
      ''            } else {'',
      ''                let masked_user = if user.len() > 2 {'',
      ''                    format!('' @ [CHR 0x22] @ ''{}'' @ [CHR 0xE2, CHR 0x80, CHR 0xA2, CHR 0xE2, CHR 0x80, CHR 0xA2, CHR 0xE2, CHR 0x80, CHR 0xA2, CHR 0xE2, CHR 0x80, CHR 0xA2] @ ''{}'' @ [CHR 0x22] @ '', &user[..1], &user[user.len()-1..])'',
      ''                } else {'',
      ''                    '' @ [CHR 0x22] @ ''u'' @ [CHR 0xE2, CHR 0x80, CHR 0xA2, CHR 0xE2, CHR 0x80, CHR 0xA2, CHR 0xE2, CHR 0x80, CHR 0xA2, CHR 0xE2, CHR 0x80, CHR 0xA2, CHR 0x22] @ ''.to_string()'',
      ''                };'',
      ''                '',
      ''                let masked_pass = if pass.len() > 2 {'',
      ''                    format!('' @ [CHR 0x22] @ ''{}'' @ [CHR 0xE2, CHR 0x80, CHR 0xA2, CHR 0xE2, CHR 0x80, CHR 0xA2, CHR 0xE2, CHR 0x80, CHR 0xA2, CHR 0xE2, CHR 0x80, CHR 0xA2] @ ''{}'' @ [CHR 0x22] @ '', &pass[..1], &pass[pass.len()-1..])'',
      ''                } else {'',
      ''                    '' @ [CHR 0x22] @ ''p'' @ [CHR 0xE2, CHR 0x80, CHR 0xA2, CHR 0xE2, CHR 0x80, CHR 0xA2, CHR 0xE2, CHR 0x80, CHR 0xA2, CHR 0xE2, CHR 0x80, CHR 0xA2, CHR 0x22] @ ''.to_string()'',
      ''                };'',
      ''                '',
      ''                format!('' @ [CHR 0x22] @ ''{}:{}'' @ [CHR 0x22] @ '', masked_user, masked_pass)'',
      ''            }'',
      ''        },'',
      ''        _ => '' @ [CHR 0x22] @ ''Aucun credential'' @ [CHR 0x22] @ ''.to_string(),'',
      ''    }'',
      ''}'',
      '''',
      ''/// Obtenir les n'' @ [CHR 0xC5, CHR 0x93] @ ''uds PIVX par d'' @ [CHR 0xC3, CHR 0xA9] @ ''faut'',
      ''pub fn get_default_pivx_nodes() -> Vec<String> {'',
      ''    vec!['',
      ''        '' @ [CHR 0x22] @ ''http://localhost:51473'' @ [CHR 0x22] @ ''.to_string(),'',
      ''        '' @ [CHR 0x22] @ ''http://pivx-node.example.com:51473'' @ [CHR 0x22] @ ''.to_string(),'',
      ''    ]'',
      ''}'',
      '''',
      ''/// Obtenir la configuration par d'' @ [CHR 0xC3, CHR 0xA9] @ ''faut pour PIVX'',
      ''pub fn get_default_pivx_config() -> PivxWalletData {'',
      ''    PivxWalletData {'',
      ''        address: String::new(),'',
      ''        rpc_user: None,'',
      ''        rpc_password: None,'',
      ''        rpc_node: get_default_pivx_nodes()[0].clone(),'',
      ''        zerocoin_min_confirmations: 6,'',
      ''        regular_min_confirmations: 2,'',
      ''    }'',
      ''}'',
      '''',
      ''// ============================================================================'',
      ''// TESTS UNITAIRES PIVX'',
      ''// ============================================================================'',
      '''',
      ''#[cfg(test)]'',
      ''mod tests {'',
      ''    use super::*;'']"

definition content_lines_09 :: "string list" where
  "content_lines_09 =
     [''    '',
      ''    #[test]'',
      ''    fn test_validate_pivx_address() {'',
      ''        // Adresse valide'',
      ''        assert!(validate_pivx_address('' @ [CHR 0x22] @ ''D5d132B7e7775B9C9B132B7e7775B9C9B132B7e7775B9C9B132B7e7'' @ [CHR 0x22] @ '').is_ok());'',
      ''        '',
      ''        // Adresse trop courte'',
      ''        assert!(validate_pivx_address('' @ [CHR 0x22] @ ''D5d132B7e7775B9C9B132B7e7'' @ [CHR 0x22] @ '').is_err());'',
      ''        '',
      ''        // Adresse trop longue'',
      ''        assert!(validate_pivx_address('' @ [CHR 0x22] @ ''D5d132B7e7775B9C9B132B7e7775B9C9B132B7e7775B9C9B132B7e7775B9C9B132B7e7775B9C9B132B7e7775B9C9B132B7e7'' @ [CHR 0x22] @ '').is_err());'',
      ''    }'',
      ''    '',
      ''    #[test]'',
      ''    fn test_validate_rpc_credentials() {'',
      ''        // Aucun credential - valide'',
      ''        assert!(validate_rpc_credentials(&None, &None).is_ok());'',
      ''        '',
      ''        // Credentials valides'',
      ''        assert!(validate_rpc_credentials(&Some('' @ [CHR 0x22] @ ''user'' @ [CHR 0x22] @ ''.to_string()), &Some('' @ [CHR 0x22] @ ''pass'' @ [CHR 0x22] @ ''.to_string())).is_ok());'',
      ''        '',
      ''        // Credentials vides - invalides'',
      ''        assert!(validate_rpc_credentials(&Some('' @ [CHR 0x22, CHR 0x22] @ ''.to_string()), &Some('' @ [CHR 0x22] @ ''pass'' @ [CHR 0x22] @ ''.to_string())).is_err());'',
      ''        assert!(validate_rpc_credentials(&Some('' @ [CHR 0x22] @ ''user'' @ [CHR 0x22] @ ''.to_string()), &Some('' @ [CHR 0x22, CHR 0x22] @ ''.to_string())).is_err());'',
      ''    }'',
      ''    '',
      ''    #[test]'',
      ''    fn test_mask_credentials() {'',
      ''        assert_eq!('',
      ''            mask_pivx_credentials(&Some('' @ [CHR 0x22] @ ''admin'' @ [CHR 0x22] @ ''.to_string()), &Some('' @ [CHR 0x22] @ ''password123'' @ [CHR 0x22] @ ''.to_string())),'',
      ''            '' @ [CHR 0x22] @ ''a'' @ [CHR 0xE2, CHR 0x80, CHR 0xA2, CHR 0xE2, CHR 0x80, CHR 0xA2, CHR 0xE2, CHR 0x80, CHR 0xA2, CHR 0xE2, CHR 0x80, CHR 0xA2] @ ''n:p'' @ [CHR 0xE2, CHR 0x80, CHR 0xA2, CHR 0xE2, CHR 0x80, CHR 0xA2, CHR 0xE2, CHR 0x80, CHR 0xA2, CHR 0xE2, CHR 0x80, CHR 0xA2] @ ''d'' @ [CHR 0x22],
      ''        );'',
      ''        assert_eq!('',
      ''            mask_pivx_credentials(&None, &None),'',
      ''            '' @ [CHR 0x22] @ ''Aucun credential'' @ [CHR 0x22],
      ''        );'',
      ''    }'',
      ''    '',
      ''    #[test]'',
      ''    fn test_default_config() {'',
      ''        let config = get_default_pivx_config();'',
      ''        assert_eq!(config.rpc_node, '' @ [CHR 0x22] @ ''http://localhost:51473'' @ [CHR 0x22] @ '');'',
      ''        assert_eq!(config.zerocoin_min_confirmations, 6);'',
      ''        assert_eq!(config.regular_min_confirmations, 2);'',
      ''    }'',
      ''}'']"

definition content_lines :: "string list" where
  "content_lines =
     content_lines_00 @
     content_lines_01 @
     content_lines_02 @
     content_lines_03 @
     content_lines_04 @
     content_lines_05 @
     content_lines_06 @
     content_lines_07 @
     content_lines_08 @
     content_lines_09"

definition content :: string where
  "content = concat (map (\<lambda>l. l @ [CHR 0x0A]) content_lines)"

definition pivx_integration_rs :: string where
  "pivx_integration_rs = ''../../src-tauri/src/pivx_integration.rs''"

text \<open>\<open>with open(path, 'w') as f: f.write(content)\<close>.\<close>

definition write_pivx_module :: "files \<Rightarrow> files" where
  "write_pivx_module fs = fs(pivx_integration_rs \<mapsto> Text_file content)"

section \<open>The random source and the building loop\<close>

lemma uniform_range:
  assumes "rng_ok R" "a \<le> b" "uniform R a b s = (v, s')"
  shows "a \<le> v \<and> v \<le> b"
proof -
  obtain u t where u: "rng_random R s = (u, t)" by (cases "rng_random R s")
  from assms(1) have "0 \<le> fst (rng_random R s)" "fst (rng_random R s) < 1"
    by (auto simp: rng_ok_def)
  with u have u01: "0 \<le> u" "u < 1" by simp_all
  from assms(3) u have v: "v = a + (b - a) * u" by (simp add: uniform_def)
  have "0 \<le> (b - a) * u" using assms(2) u01 by simp
  moreover have "(b - a) * u \<le> (b - a) * 1"
    using assms(2) u01 by (intro mult_left_mono) simp_all
  ultimately show ?thesis using v by simp
qed

lemma building_step_width:
  assumes ok: "rng_ok R" and st: "building_step R x s = (b, x', s')"
  shows "bld_x b = x \<and> 18 \<le> bld_w b \<and> bld_w b \<le> 110 \<and>
         x + bld_w b * 0.5 \<le> x' \<and> x' \<le> x + bld_w b * 1.1"
proof -
  obtain btype s1 where c: "choice R btypes s = (btype, s1)" by (cases "choice R btypes s")
  define wd where "wd = (if btype \<noteq> ''megablock'' then uniform R 18 55 s1 else uniform R 60 110 s1)"
  obtain bw s2 where w: "wd = (bw, s2)" by (cases wd)
  define hd' where "hd' = (if btype = ''tower'' then uniform R 80 240 s2
                      else if btype = ''dome'' then uniform R 50 120 s2
                      else if btype = ''spire'' then uniform R 150 320 s2
                      else if btype = ''antenna'' then uniform R 180 350 s2
                      else if btype = ''megablock'' then uniform R 60 160 s2
                      else uniform R 40 100 s2)"
  obtain bh s3 where h: "hd' = (bh, s3)" by (cases hd')
  obtain f s4 where f: "uniform R 0.5 1.1 s3 = (f, s4)" by (cases "uniform R 0.5 1.1 s3")
  from st c w h f have b: "b = (x, bw, bh, btype)" and x': "x' = x + bw * f"
    by (simp_all add: building_step_def wd_def hd'_def)
  have bw: "18 \<le> bw \<and> bw \<le> 110"
  proof (cases "btype \<noteq> ''megablock''")
    case True
    with w have "uniform R 18 55 s1 = (bw, s2)" by (simp add: wd_def)
    from uniform_range [OF ok _ this] show ?thesis by simp
  next
    case False
    with w have "uniform R 60 110 s1 = (bw, s2)" by (simp add: wd_def)
    from uniform_range [OF ok _ this] show ?thesis by simp
  qed
  from uniform_range [OF ok _ f] have fr: "0.5 \<le> f" "f \<le> 1.1" by simp_all
  have "bw * 0.5 \<le> bw * f" using bw fr by (intro mult_left_mono) simp_all
  moreover have "bw * f \<le> bw * 1.1" using bw fr by (intro mult_left_mono) simp_all
  ultimately show ?thesis using b x' bw by (simp add: bld_x_def bld_w_def)
qed

lemma gen_buildings_chain:
  assumes ok: "rng_ok R"
  shows "real_of_int (W + 20) - x \<le> 9 * real n \<Longrightarrow>
         \<exists>bs s'. gen_buildings R W acc x s = Some (acc @ bs, s') \<and>
                 skyline_chain (real_of_int (W + 20)) bs \<and>
                 (if x < real_of_int (W + 20) then bs \<noteq> [] \<and> bld_x (hd bs) = x else bs = [])"
proof (induction n arbitrary: acc x s)
  case 0
  then have "\<not> x < real_of_int (W + 20)" by simp
  then show ?case by (subst gen_buildings.simps) simp
next
  case (Suc n)
  show ?case
  proof (cases "x < real_of_int (W + 20)")
    case False
    then show ?thesis by (subst gen_buildings.simps) simp
  next
    case True
    obtain b x' s1 where st: "building_step R x s = (b, x', s1)"
      by (cases "building_step R x s")
    from building_step_width [OF ok st]
    have b: "bld_x b = x" "18 \<le> bld_w b" "bld_w b \<le> 110"
      "x + bld_w b * 0.5 \<le> x'" "x' \<le> x + bld_w b * 1.1" by simp_all
    from b have "x + 9 \<le> x'" by simp
    with Suc.prems have "real_of_int (W + 20) - x' \<le> 9 * real n" by simp
    from Suc.IH [OF this, of "acc @ [b]" s1]
    obtain bs s' where r: "gen_buildings R W (acc @ [b]) x' s1 = Some ((acc @ [b]) @ bs, s')"
      and ch: "skyline_chain (real_of_int (W + 20)) bs"
      and hd: "if x' < real_of_int (W + 20) then bs \<noteq> [] \<and> bld_x (hd bs) = x' else bs = []"
      by blast
    have g: "gen_buildings R W acc x s = Some (acc @ (b # bs), s')"
      using True st r by (subst gen_buildings.simps) simp
    have "skyline_chain (real_of_int (W + 20)) (b # bs)"
    proof (cases bs)
      case Nil
      with hd have "real_of_int (W + 20) \<le> x'" by (simp split: if_splits)
      with b True Nil show ?thesis by simp
    next
      case (Cons b' bs')
      with hd have "bld_x b' = x'" by (simp split: if_splits)
      with b True Cons ch show ?thesis by simp
    qed
    with g True b show ?thesis by auto
  qed
qed

lemma gen_buildings_returns:
  assumes ok: "rng_ok R"
  shows "\<exists>bs s'. gen_buildings R W [] x s = Some (bs, s') \<and>
                 skyline_chain (real_of_int (W + 20)) bs \<and>
                 (if x < real_of_int (W + 20) then bs \<noteq> [] \<and> bld_x (hd bs) = x else bs = [])"
proof -
  obtain n :: nat where "(real_of_int (W + 20) - x) / 9 \<le> real n"
    using real_arch_simple by blast
  then have "real_of_int (W + 20) - x \<le> 9 * real n" by simp
  from gen_buildings_chain [OF ok this, of "[]" s] show ?thesis by simp
qed

lemma skyline_chain_cover:
  "skyline_chain edge bs \<Longrightarrow> bs \<noteq> [] \<Longrightarrow> bld_x (hd bs) \<le> p \<Longrightarrow> p \<le> edge \<Longrightarrow>
   \<exists>b \<in> set bs. bld_x b \<le> p \<and> p \<le> bld_x b + bld_w b * 1.1"
proof (induction edge bs rule: skyline_chain.induct)
  case (1 edge)
  then show ?case by simp
next
  case (2 edge b)
  then show ?case by auto
next
  case (3 edge b b' bs)
  show ?case
  proof (cases "p \<le> bld_x b + bld_w b * 1.1")
    case True
    with 3 show ?thesis by auto
  next
    case False
    with 3 have "bld_x (hd (b' # bs)) \<le> p" by simp
    with 3 have "\<exists>c \<in> set (b' # bs). bld_x c \<le> p \<and> p \<le> bld_x c + bld_w c * 1.1" by simp
    then show ?thesis by auto
  qed
qed

lemma skyline_chain_nth:
  "skyline_chain edge bs \<Longrightarrow> Suc i < length bs \<Longrightarrow>
   bld_x (bs ! i) + bld_w (bs ! i) * 0.5 \<le> bld_x (bs ! Suc i) \<and>
   bld_x (bs ! Suc i) \<le> bld_x (bs ! i) + bld_w (bs ! i) * 1.1 \<and>
   bld_x (bs ! Suc i) - (bld_x (bs ! i) + bld_w (bs ! i)) \<le> 110 * 1.1"
proof (induction edge bs arbitrary: i rule: skyline_chain.induct)
  case (3 edge b b' bs)
  then show ?case by (cases i) auto
qed simp_all

lemma skyline_chain_all:
  "skyline_chain edge bs \<Longrightarrow> b \<in> set bs \<Longrightarrow> bld_x b < edge \<and> 18 \<le> bld_w b \<and> bld_w b \<le> 110"
  by (induction edge bs rule: skyline_chain.induct) auto

lemma skyline_chain_last:
  "skyline_chain edge bs \<Longrightarrow> bs \<noteq> [] \<Longrightarrow> edge \<le> bld_x (last bs) + bld_w (last bs) * 1.1"
  by (induction edge bs rule: skyline_chain.induct) auto

text \<open>
  Claim C4. With a generator that keeps Python's ranges and a canvas width above \<open>-40\<close>, the
  building loop returns a non-empty sequence whose first building starts at the left margin
  \<open>x = -20\<close>; every building starts left of \<open>W + 20\<close> with a width between 18 and 110; each
  next building starts between 0.5 and 1.1 widths after the one before, so the gap after a
  building's span never exceeds \<open>110 * 1.1\<close>; the cursor passes \<open>W + 20\<close> within 1.1 widths of
  the last building; and every position from \<open>-20\<close> to \<open>W + 20\<close> lies within 1.1 widths of the
  start of some building.
\<close>

theorem skyline_covers_canvas:
  assumes ok: "rng_ok R" and w: "- 40 < W"
  shows "\<exists>bs s'. gen_buildings R W [] (- 20) s = Some (bs, s') \<and>
           bs \<noteq> [] \<and> bld_x (hd bs) = - 20 \<and>
           (\<forall>b \<in> set bs. bld_x b < real_of_int (W + 20) \<and> 18 \<le> bld_w b \<and> bld_w b \<le> 110) \<and>
           (\<forall>i. Suc i < length bs \<longrightarrow>
                bld_x (bs ! i) + bld_w (bs ! i) * 0.5 \<le> bld_x (bs ! Suc i) \<and>
                bld_x (bs ! Suc i) \<le> bld_x (bs ! i) + bld_w (bs ! i) * 1.1 \<and>
                bld_x (bs ! Suc i) - (bld_x (bs ! i) + bld_w (bs ! i)) \<le> 110 * 1.1) \<and>
           real_of_int (W + 20) \<le> bld_x (last bs) + bld_w (last bs) * 1.1 \<and>
           (\<forall>p. - 20 \<le> p \<and> p \<le> real_of_int (W + 20) \<longrightarrow>
                (\<exists>b \<in> set bs. bld_x b \<le> p \<and> p \<le> bld_x b + bld_w b * 1.1))"
proof -
  from w have lt: "(- 20 :: real) < real_of_int (W + 20)" by simp
  from gen_buildings_returns [OF ok, of W "- 20" s] lt
  obtain bs s' where g: "gen_buildings R W [] (- 20) s = Some (bs, s')"
    and ch: "skyline_chain (real_of_int (W + 20)) bs"
    and ne: "bs \<noteq> []" and hd: "bld_x (hd bs) = - 20"
    by auto
  have "\<forall>b \<in> set bs. bld_x b < real_of_int (W + 20) \<and> 18 \<le> bld_w b \<and> bld_w b \<le> 110"
    using skyline_chain_all [OF ch] by blast
  moreover have "\<forall>i. Suc i < length bs \<longrightarrow>
                bld_x (bs ! i) + bld_w (bs ! i) * 0.5 \<le> bld_x (bs ! Suc i) \<and>
                bld_x (bs ! Suc i) \<le> bld_x (bs ! i) + bld_w (bs ! i) * 1.1 \<and>
                bld_x (bs ! Suc i) - (bld_x (bs ! i) + bld_w (bs ! i)) \<le> 110 * 1.1"
    using skyline_chain_nth [OF ch] by blast
  moreover have "real_of_int (W + 20) \<le> bld_x (last bs) + bld_w (last bs) * 1.1"
    using skyline_chain_last [OF ch ne] .
  moreover have "\<forall>p. - 20 \<le> p \<and> p \<le> real_of_int (W + 20) \<longrightarrow>
                (\<exists>b \<in> set bs. bld_x b \<le> p \<and> p \<le> bld_x b + bld_w b * 1.1)"
    using skyline_chain_cover [OF ch ne] hd by simp
  ultimately show ?thesis using g ne hd by blast
qed

lemma rng_ok_counter: "rng_ok counter_rng"
  by (simp add: rng_ok_def counter_rng_def)

theorem skyline_covers_canvas_witness:
  "rng_ok counter_rng \<and> (- 40 :: int) < 200 \<and>
   (\<exists>bs s'. gen_buildings counter_rng 200 [] (- 20) 0 = Some (bs, s') \<and>
           bs \<noteq> [] \<and> bld_x (hd bs) = - 20 \<and>
           (\<forall>b \<in> set bs. bld_x b < real_of_int (200 + 20) \<and> 18 \<le> bld_w b \<and> bld_w b \<le> 110) \<and>
           (\<forall>i. Suc i < length bs \<longrightarrow>
                bld_x (bs ! i) + bld_w (bs ! i) * 0.5 \<le> bld_x (bs ! Suc i) \<and>
                bld_x (bs ! Suc i) \<le> bld_x (bs ! i) + bld_w (bs ! i) * 1.1 \<and>
                bld_x (bs ! Suc i) - (bld_x (bs ! i) + bld_w (bs ! i)) \<le> 110 * 1.1) \<and>
           real_of_int (200 + 20) \<le> bld_x (last bs) + bld_w (last bs) * 1.1 \<and>
           (\<forall>p. - 20 \<le> p \<and> p \<le> real_of_int (200 + 20) \<longrightarrow>
                (\<exists>b \<in> set bs. bld_x b \<le> p \<and> p \<le> bld_x b + bld_w b * 1.1)))"
proof -
  have w: "(- 40 :: int) < 200" by simp
  show ?thesis
    using rng_ok_counter w skyline_covers_canvas [OF rng_ok_counter w, of 0] by blast
qed

section \<open>The pipeline: determinism\<close>

lemma blur_city_eq:
  "blur_city W H city main fs =
     Inr (Convert_result [''-blur'', ''0x8''] (Surface W H city),
          fs(city_layer_png \<mapsto> Png_file (Surface W H city),
             base_layer_png \<mapsto> Png_file (Surface W H main),
             city_blurred_png \<mapsto>
               Png_file (Convert_result [''-blur'', ''0x8''] (Surface W H city))))"
  by (simp add: blur_city_def write_to_png_def subprocess_run_def convert_argv_def
      create_from_png_def city_layer_png_def base_layer_png_def city_blurred_png_def)

lemma city_layer_returns:
  assumes "rng_ok R"
  shows "\<exists>city s'. city_layer R W H s = Some (city, s')"
proof -
  from gen_buildings_returns [OF assms, of W "- 20" s]
  obtain bs s1 where "gen_buildings R W [] (- 20) s = Some (bs, s1)" by blast
  then show ?thesis
    by (cases "draw_city_silhouette R H bs 1.0 0 0 s1") (simp add: city_layer_def)
qed

lemma generate_explicit:
  assumes "rng_ok R"
  shows "\<exists>backdrop s1 city s2 foreground s3.
           render_backdrop R W H (rng_seed R seed) = (backdrop, s1) \<and>
           city_layer R W H s1 = Some (city, s2) \<and>
           render_foreground R W H s2 = (foreground, s3) \<and>
           (\<forall>fs. generate R seed W H fs =
              Some (Inr \<lparr> out_main = backdrop
                            @ composite_city (Convert_result [''-blur'', ''0x8''] (Surface W H city))
                            @ foreground,
                          out_city = city,
                          out_files = write_to_png W H
                            (backdrop
                             @ composite_city (Convert_result [''-blur'', ''0x8''] (Surface W H city))
                             @ foreground) solarpunk_bg_png
                            (fs(city_layer_png \<mapsto> Png_file (Surface W H city),
                                base_layer_png \<mapsto> Png_file (Surface W H backdrop),
                                city_blurred_png \<mapsto>
                                  Png_file (Convert_result [''-blur'', ''0x8''] (Surface W H city)))),
                          out_rng = s3 \<rparr>))"
proof -
  obtain backdrop s1 where b: "render_backdrop R W H (rng_seed R seed) = (backdrop, s1)"
    by (cases "render_backdrop R W H (rng_seed R seed)")
  from city_layer_returns [OF assms, of W H s1]
  obtain city s2 where c: "city_layer R W H s1 = Some (city, s2)" by blast
  obtain foreground s3 where f: "render_foreground R W H s2 = (foreground, s3)"
    by (cases "render_foreground R W H s2")
  show ?thesis
    using b c f by (simp add: generate_def blur_city_eq Let_def)
qed


text \<open>
  Claim C1. With a generator that keeps Python's ranges, for every seed and canvas size the
  script ends normally, and the calls made on the main context, hence the image written to
  the output file, are the same for any two runs, whatever files the runs find at the start:
  the result is determined by the seed, the size and the fixed order of the draws.
\<close>

theorem generate_deterministic:
  assumes "rng_ok R"
  shows "\<exists>r1 r2.
           generate R seed W H fs1 = Some (Inr r1) \<and>
           generate R seed W H fs2 = Some (Inr r2) \<and>
           out_main r1 = out_main r2 \<and>
           out_files r1 solarpunk_bg_png = Some (Png_file (Surface W H (out_main r1))) \<and>
           out_files r2 solarpunk_bg_png = out_files r1 solarpunk_bg_png"
proof -
  from generate_explicit [OF assms, of W H seed]
  obtain backdrop s1 city s2 foreground s3 where
    g: "\<forall>fs. generate R seed W H fs =
              Some (Inr \<lparr> out_main = backdrop
                            @ composite_city (Convert_result [''-blur'', ''0x8''] (Surface W H city))
                            @ foreground,
                          out_city = city,
                          out_files = write_to_png W H
                            (backdrop
                             @ composite_city (Convert_result [''-blur'', ''0x8''] (Surface W H city))
                             @ foreground) solarpunk_bg_png
                            (fs(city_layer_png \<mapsto> Png_file (Surface W H city),
                                base_layer_png \<mapsto> Png_file (Surface W H backdrop),
                                city_blurred_png \<mapsto>
                                  Png_file (Convert_result [''-blur'', ''0x8''] (Surface W H city)))),
                          out_rng = s3 \<rparr>)"
    by blast
  from g [rule_format, of fs1] g [rule_format, of fs2] show ?thesis
    by (simp add: write_to_png_def)
qed

theorem generate_deterministic_witness:
  "rng_ok counter_rng \<and>
   (\<exists>r1 r2.
      generate counter_rng 42 1800 1200 Map.empty = Some (Inr r1) \<and>
      generate counter_rng 42 1800 1200
        (Map.empty(city_blurred_png \<mapsto> Text_file ''stale'')) = Some (Inr r2) \<and>
      out_main r1 = out_main r2 \<and>
      out_files r1 solarpunk_bg_png = Some (Png_file (Surface 1800 1200 (out_main r1))) \<and>
      out_files r2 solarpunk_bg_png = out_files r1 solarpunk_bg_png)"
  using rng_ok_counter
    generate_deterministic [OF rng_ok_counter, of 42 1800 1200 Map.empty
      "Map.empty(city_blurred_png \<mapsto> Text_file ''stale'')"]
  by blast

section \<open>The sky gradient\<close>

lemma sky_painted:
  assumes "0 < H"
  shows "painted_color (sky H) x y = Some (gradient_at sky_stops (y / real_of_int H))"
proof -
  have "linear_offset 0 0 0 (real_of_int H) x y = y / real_of_int H"
    using assms by (simp add: linear_offset_def power2_eq_square)
  then show ?thesis by (simp add: sky_def)
qed

lemma sky_top:
  assumes t: "0 \<le> t" "t \<le> e" and e: "e \<le> 1 / 10"
  shows "close_to (11 / 30 * e) (gradient_at sky_stops t) (0.97, 0.96, 0.88, 1) \<and>
         snd (snd (snd (gradient_at sky_stops t))) = 1"
proof (cases "t \<le> 0")
  case True
  with t show ?thesis by (simp add: sky_stops_def close_to_def)
next
  case False
  with t e have g: "gradient_at sky_stops t =
      mix (0.97, 0.96, 0.88, 1) (0.96, 0.95, 0.86, 1) (t / 0.12)"
    by (simp add: sky_stops_def)
  show ?thesis unfolding g mix_def close_to_def using t e False by simp
qed

lemma sky_bottom:
  assumes t: "1 - e \<le> t" "t \<le> 1" and e: "e \<le> 1 / 10"
  shows "close_to (11 / 30 * e) (gradient_at sky_stops t) (0.72, 0.84, 0.65, 1) \<and>
         snd (snd (snd (gradient_at sky_stops t))) = 1"
proof (cases "t < 1")
  case False
  with t have "t = 1" by simp
  with t e show ?thesis by (simp add: sky_stops_def close_to_def)
next
  case True
  with t e have g: "gradient_at sky_stops t =
      mix (0.82, 0.90, 0.76, 1) (0.72, 0.84, 0.65, 1) ((t - 0.70) / (1.0 - 0.70))"
    by (simp add: sky_stops_def)
  show ?thesis unfolding g mix_def close_to_def using t e True
    by (simp, argo)
qed

text \<open>
  Claim C5. The sky stage is one linear gradient over the full height painted on the whole
  canvas. For a canvas at least 10 high, the colour is exactly (0.97, 0.96, 0.88) at the top
  edge and (0.72, 0.84, 0.65) at the bottom edge, every point of the top row is within
  \<open>11 / (30 * H)\<close> per channel of the first colour and every point of the bottom row within
  the same distance of the second, and both are fully opaque.
\<close>

theorem sky_gradient_rows:
  assumes H: "10 \<le> H"
  shows "painted_color (sky H) x 0 = Some (0.97, 0.96, 0.88, 1) \<and>
         painted_color (sky H) x (real_of_int H) = Some (0.72, 0.84, 0.65, 1) \<and>
         (0 \<le> y \<and> y \<le> 1 \<longrightarrow>
            (\<exists>c. painted_color (sky H) x y = Some c \<and>
                 close_to (11 / (30 * real_of_int H)) c (0.97, 0.96, 0.88, 1) \<and>
                 snd (snd (snd c)) = 1)) \<and>
         (real_of_int H - 1 \<le> y \<and> y \<le> real_of_int H \<longrightarrow>
            (\<exists>c. painted_color (sky H) x y = Some c \<and>
                 close_to (11 / (30 * real_of_int H)) c (0.72, 0.84, 0.65, 1) \<and>
                 snd (snd (snd c)) = 1))"
proof -
  from H have pos: "0 < H" by simp
  define e where "e = 1 / real_of_int H"
  from H have e: "e \<le> 1 / 10" "0 < e" by (simp_all add: e_def field_simps)
  have tol: "11 / (30 * real_of_int H) = 11 / 30 * e" by (simp add: e_def)
  have top0: "painted_color (sky H) x 0 = Some (0.97, 0.96, 0.88, 1)"
    by (simp add: sky_painted [OF pos] sky_stops_def)
  have bot0: "painted_color (sky H) x (real_of_int H) = Some (0.72, 0.84, 0.65, 1)"
    using pos by (simp add: sky_painted [OF pos] sky_stops_def)
  have top: "\<exists>c. painted_color (sky H) x y = Some c \<and>
                 close_to (11 / (30 * real_of_int H)) c (0.97, 0.96, 0.88, 1) \<and>
                 snd (snd (snd c)) = 1" if y: "0 \<le> y" "y \<le> 1"
  proof -
    have "0 \<le> y / real_of_int H" using y pos by simp
    moreover have "y / real_of_int H \<le> e" using y pos by (simp add: e_def divide_right_mono)
    ultimately show ?thesis
      using sky_top [of "y / real_of_int H" e] e by (simp add: sky_painted [OF pos] tol)
  qed
  have bot: "\<exists>c. painted_color (sky H) x y = Some c \<and>
                 close_to (11 / (30 * real_of_int H)) c (0.72, 0.84, 0.65, 1) \<and>
                 snd (snd (snd c)) = 1" if y: "real_of_int H - 1 \<le> y" "y \<le> real_of_int H"
  proof -
    have "(real_of_int H - 1) / real_of_int H \<le> y / real_of_int H"
      using y pos by (simp add: divide_right_mono)
    then have "1 - e \<le> y / real_of_int H" using pos by (simp add: e_def field_simps)
    moreover have "y / real_of_int H \<le> 1" using y pos by simp
    ultimately show ?thesis
      using sky_bottom [of e "y / real_of_int H"] e by (simp add: sky_painted [OF pos] tol)
  qed
  from top0 bot0 top bot show ?thesis by blast
qed

theorem sky_gradient_rows_witness:
  "(10 :: int) \<le> 100 \<and>
   painted_color (sky 100) 0 0 = Some (0.97, 0.96, 0.88, 1) \<and>
   painted_color (sky 100) 0 100 = Some (0.72, 0.84, 0.65, 1) \<and>
   (\<exists>c. painted_color (sky 100) 0 (1 / 2) = Some c \<and>
        close_to (11 / 3000) c (0.97, 0.96, 0.88, 1) \<and> snd (snd (snd c)) = 1) \<and>
   (\<exists>c. painted_color (sky 100) 0 (199 / 2) = Some c \<and>
        close_to (11 / 3000) c (0.72, 0.84, 0.65, 1) \<and> snd (snd (snd c)) = 1)"
proof -
  have h: "(10 :: int) \<le> 100" by simp
  from sky_gradient_rows [OF h, of 0 "1 / 2"] sky_gradient_rows [OF h, of 0 "199 / 2"]
  show ?thesis by simp
qed

section \<open>Random draws of the sun rays and the hills\<close>

lemma uniform_eq: "uniform R a b s = (a + (b - a) * fst (rng_random R s), snd (rng_random R s))"
  by (simp add: uniform_def split: prod.splits)

lemma rng_draws_Suc:
  "rng_draws R (Suc n) s =
     (fst (rng_random R s) # fst (rng_draws R n (snd (rng_random R s))),
      snd (rng_draws R n (snd (rng_random R s))))"
  by (simp add: case_prod_beta)

lemma for_rng_Cons:
  "for_rng body (i # is) s =
     (fst (body i s) @ fst (for_rng body is (snd (body i s))),
      snd (for_rng body is (snd (body i s))))"
  by (simp add: case_prod_beta)

lemma rng_draws_counter: "snd (rng_draws counter_rng n s) = s + n"
proof (induction n arbitrary: s)
  case 0
  show ?case by simp
next
  case (Suc n)
  have "snd (rng_random counter_rng s) = Suc s" by (simp add: counter_rng_def)
  then show ?case by (simp add: rng_draws_Suc Suc.IH del: rng_draws.simps)
qed

lemma for_rng_one_draw:
  "for_rng (\<lambda>i s. (f i (a + (b - a) * fst (rng_random R s)), snd (rng_random R s))) xs s =
     (concat (map (\<lambda>(i, u). f i (a + (b - a) * u)) (zip xs (fst (rng_draws R (length xs) s)))),
      snd (rng_draws R (length xs) s))"
proof (induction xs arbitrary: s)
  case Nil
  show ?case by simp
next
  case (Cons i xs)
  show ?case
    by (simp add: for_rng_Cons rng_draws_Suc Cons.IH del: for_rng.simps rng_draws.simps)
qed

lemma sun_ray_step_fun:
  "sun_ray_step R W H =
     (\<lambda>i s. (sun_ray W H i (350 + (- 80 + (120 - (- 80)) * fst (rng_random R s))),
             snd (rng_random R s)))"
  by (rule ext, rule ext) (simp add: sun_ray_step_def uniform_eq)

lemma sun_ray_step_eq:
  "sun_ray_step R W H i s =
     (sun_ray W H i (350 + (- 80 + (120 - (- 80)) * fst (rng_random R s))), snd (rng_random R s))"
  by (simp add: sun_ray_step_def uniform_eq)

text \<open>
  Claim C7, as the code has it. Each of the 24 rays takes exactly one draw: its length is
  350 plus a fresh \<open>uniform(-80, 120)\<close>. Its opacity is not drawn: it is 0.14 for every third
  ray and 0.08 for the others, whatever the generator returns.
\<close>

theorem sun_ray_length_drawn_opacity_fixed:
  "sun_rays R W H s =
     (concat (map (\<lambda>(i, u). sun_ray W H i (350 + (- 80 + (120 - (- 80)) * u)))
                (zip [0..<24] (fst (rng_draws R 24 s)))),
      snd (rng_draws R 24 s)) \<and>
   sun_ray W H i len ! 4 = Line_to len 0 \<and>
   sun_ray W H i len ! 5 =
     Set_source_rgba (218 / 255) (180 / 255) (40 / 255) (if i mod 3 = 0 then 0.14 else 0.08)"
proof -
  have "sun_rays R W H s =
     (concat (map (\<lambda>(i, u). sun_ray W H i (350 + (- 80 + (120 - (- 80)) * u)))
                (zip [0..<24] (fst (rng_draws R (length [0..<24]) s)))),
      snd (rng_draws R (length [0..<24]) s))"
    unfolding sun_rays_def sun_ray_step_fun
    by (rule for_rng_one_draw [where f = "\<lambda>i v. sun_ray W H i (350 + v)"])
  then show ?thesis by (simp add: sun_ray_def rgb_def Let_def)
qed

text \<open>
  Claim C7 as stated fails: with two generators that differ in every draw, ray 0 has
  different lengths and the same opacity 0.14, its body takes one draw, and the whole loop
  takes 24 draws for its 24 rays.
\<close>

theorem sun_ray_opacity_not_drawn:
  "sun_ray_step (const_rng 0) 1800 1200 0 0 = (sun_ray 1800 1200 0 270, 1) \<and>
   sun_ray_step (const_rng (9 / 10)) 1800 1200 0 0 = (sun_ray 1800 1200 0 450, 1) \<and>
   sun_ray 1800 1200 0 270 ! 5 = Set_source_rgba (218 / 255) (180 / 255) (40 / 255) 0.14 \<and>
   sun_ray 1800 1200 0 450 ! 5 = Set_source_rgba (218 / 255) (180 / 255) (40 / 255) 0.14 \<and>
   sun_ray 1800 1200 0 270 ! 4 \<noteq> sun_ray 1800 1200 0 450 ! 4 \<and>
   snd (sun_rays counter_rng 1800 1200 0) = 24"
proof -
  have "snd (sun_rays counter_rng 1800 1200 0) = snd (rng_draws counter_rng 24 0)"
    unfolding sun_rays_def sun_ray_step_fun
    by (subst for_rng_one_draw [where f = "\<lambda>i v. sun_ray 1800 1200 i (350 + v)"]) simp
  then show ?thesis
    by (simp add: rng_draws_counter sun_ray_step_eq const_rng_def sun_ray_def rgb_def Let_def)
qed


lemma hill_outline_draws:
  "hill_outline R W base_y x s =
     (map (\<lambda>(x, u). Line_to (real_of_int x) (hill_cy base_y x u))
        (zip (py_range x (W + 50) 3) (fst (rng_draws R (length (py_range x (W + 50) 3)) s))),
      snd (rng_draws R (length (py_range x (W + 50) 3)) s))"
proof (induction R W base_y x s rule: hill_outline.induct)
  case (1 R W base_y x s)
  show ?case
  proof (cases "x < W + 50")
    case False
    then show ?thesis
      by (subst hill_outline.simps, subst (1 2 3) py_range.simps) simp
  next
    case True
    note IH = 1 [OF True prod.collapse refl, unfolded uniform_eq snd_conv]
    have r: "py_range x (W + 50) 3 = x # py_range (x + 3) (W + 50) 3"
      using True by (subst py_range.simps) simp
    show ?thesis
      using True
      by (subst hill_outline.simps)
         (simp add: r IH uniform_eq rng_draws_Suc case_prod_beta
            del: hill_outline.simps py_range.simps rng_draws.simps)
  qed
qed

text \<open>
  Claim C6, as the code has it. There are four hills with fixed baselines at 0.58, 0.64, 0.70
  and 0.78 of the height, filled with increasing alpha and darker colours toward the
  foreground. The silhouette of a hill is sampled every 3 units of \<open>x\<close> below \<open>W + 50\<close>; each
  sample is the baseline plus a sine of frequency 0.003 with amplitude 35 and a sine of
  frequency 0.008 with amplitude 18, and the phase of the first sine is a fresh draw of
  \<open>uniform(0, 1)\<close> for every sample: the \<open>k\<close>-th sample uses the \<open>k\<close>-th draw.
\<close>

theorem hill_phase_drawn_per_sample:
  "map fst (hills H) = [H * 0.58, H * 0.64, H * 0.70, H * 0.78] \<and>
   map (fst \<circ> snd) (hills H) = [0.14, 0.18, 0.24, 0.30] \<and>
   map (snd \<circ> snd) (hills H) =
     [(0.58, 0.74, 0.48), (0.48, 0.68, 0.40), (0.38, 0.60, 0.32), (0.30, 0.52, 0.26)] \<and>
   draw_hill R W H (base_y, alpha, hr, hg, hb) s =
     ([Move_to 0 (base_y + 40)]
      @ map (\<lambda>(x, u). Line_to (real_of_int x)
                         (base_y + sin (real_of_int x * 0.003 + u) * 35
                                 + sin (real_of_int x * 0.008) * 18))
          (zip (py_range 0 (W + 50) 3)
               (fst (rng_draws R (length (py_range 0 (W + 50) 3)) s)))
      @ [Line_to W H, Line_to 0 H, Close_path, Set_source_rgba hr hg hb alpha, Fill],
      snd (rng_draws R (length (py_range 0 (W + 50) 3)) s))"
  by (simp add: hills_def draw_hill_def hill_outline_draws hill_cy_def
        del: hill_outline.simps py_range.simps)

lemma sin_small_distinct:
  "sin (109 / 1000 :: real) \<noteq> sin (9 / 1000) * c" if "c = 1 \<or> c = - 1"
proof -
  have pi2: "(109 / 1000 :: real) \<le> pi / 2" using pi_ge_two by simp
  have lt: "sin (9 / 1000 :: real) < sin (109 / 1000)"
    by (rule sin_monotone_2pi) (use pi2 pi_ge_two in simp_all)
  have pos: "0 < sin (9 / 1000 :: real)"
    by (rule sin_gt_zero) (use pi_ge_two in simp_all)
  from that lt pos show ?thesis by auto
qed

text \<open>
  Claim C6 as stated fails: no single phase gives the first two samples of a hill drawn with
  the counter generator on the 1800 by 1200 canvas (baseline 696).
\<close>

theorem hill_phase_not_constant:
  "\<not> (\<exists>phase.
        fst (hill_outline counter_rng 1800 696 0 0) ! 0 = Line_to 0 (hill_cy 696 0 phase) \<and>
        fst (hill_outline counter_rng 1800 696 0 0) ! 1 = Line_to 3 (hill_cy 696 3 phase))"
proof
  assume "\<exists>phase.
        fst (hill_outline counter_rng 1800 696 0 0) ! 0 = Line_to 0 (hill_cy 696 0 phase) \<and>
        fst (hill_outline counter_rng 1800 696 0 0) ! 1 = Line_to 3 (hill_cy 696 3 phase)"
  then obtain phase where
    p0: "fst (hill_outline counter_rng 1800 696 0 0) ! 0 = Line_to 0 (hill_cy 696 0 phase)" and
    p1: "fst (hill_outline counter_rng 1800 696 0 0) ! 1 = Line_to 3 (hill_cy 696 3 phase)"
    by blast
  have o: "hill_outline counter_rng 1800 696 0 0 =
             (Line_to 0 (hill_cy 696 0 0) # Line_to 3 (hill_cy 696 3 (1 / 10))
                # fst (hill_outline counter_rng 1800 696 6 (Suc (Suc 0))),
              snd (hill_outline counter_rng 1800 696 6 (Suc (Suc 0))))"
    by (subst hill_outline.simps, subst hill_outline.simps)
       (simp add: uniform_eq counter_rng_def case_prod_beta del: hill_outline.simps)
  have e0: "fst (hill_outline counter_rng 1800 696 0 0) ! 0 = Line_to 0 (hill_cy 696 0 0)"
    by (simp add: o del: hill_outline.simps)
  have e1: "fst (hill_outline counter_rng 1800 696 0 0) ! 1 = Line_to 3 (hill_cy 696 3 (1 / 10))"
    by (simp add: o del: hill_outline.simps)
  from p0 e0 have "sin phase = 0" by (simp add: hill_cy_def del: hill_outline.simps)
  then have "(cos phase)\<^sup>2 = 1" using sin_cos_squared_add [of phase] by simp
  then have c: "cos phase = 1 \<or> cos phase = - 1" by (simp add: power2_eq_1_iff)
  from p1 e1 have "sin (3 * 0.003 + 1 / 10 :: real) = sin (3 * 0.003 + phase)"
    by (simp add: hill_cy_def del: hill_outline.simps)
  then have "sin (109 / 1000 :: real) = sin (9 / 1000 + phase)" by simp
  also have "\<dots> = sin (9 / 1000) * cos phase" using \<open>sin phase = 0\<close> by (simp add: sin_add)
  finally show False using sin_small_distinct [OF c] by simp
qed

section \<open>Save and restore around the drawing blocks\<close>

lemma run_calls_append:
  "run_calls (xs @ ys) st =
     (case run_calls xs st of None \<Rightarrow> None | Some st' \<Rightarrow> run_calls ys st')"
  by (induction xs arbitrary: st) (simp_all split: option.splits)

lemma apply_call_plain:
  "c \<noteq> Save \<Longrightarrow> c \<noteq> Restore \<Longrightarrow> \<exists>g'. apply_call c (g, stack) = Some (g', stack)"
  by (cases c) simp_all

lemma run_calls_plain:
  "\<forall>c \<in> set cs. c \<noteq> Save \<and> c \<noteq> Restore \<Longrightarrow> \<exists>g'. run_calls cs (g, stack) = Some (g', stack)"
proof (induction cs arbitrary: g)
  case Nil
  show ?case by simp
next
  case (Cons c cs)
  then obtain g1 where "apply_call c (g, stack) = Some (g1, stack)"
    using apply_call_plain [of c g stack] by auto
  with Cons show ?case by simp
qed

lemma save_restore_block:
  assumes "\<forall>c \<in> set body. c \<noteq> Save \<and> c \<noteq> Restore"
  shows "run_calls (Save # body @ [Restore]) (g, stack) = Some (g, stack)"
proof -
  from run_calls_plain [OF assms, of g "g # stack"]
  obtain g' where "run_calls body (g, g # stack) = Some (g', g # stack)" ..
  then show ?thesis by (simp add: run_calls_append)
qed

lemma scoped_Nil: "scoped []"
  by (simp add: scoped_def)

lemma scoped_append: "scoped xs \<Longrightarrow> scoped ys \<Longrightarrow> scoped (xs @ ys)"
  unfolding scoped_def
proof (intro allI)
  fix g stack
  assume x: "\<forall>g stack. \<exists>g'. run_calls xs (g, stack) = Some (g', stack) \<and> gs_ctm g' = gs_ctm g"
    and y: "\<forall>g stack. \<exists>g'. run_calls ys (g, stack) = Some (g', stack) \<and> gs_ctm g' = gs_ctm g"
  from x obtain g1 where 1: "run_calls xs (g, stack) = Some (g1, stack)" "gs_ctm g1 = gs_ctm g"
    by blast
  from y obtain g2 where 2: "run_calls ys (g1, stack) = Some (g2, stack)" "gs_ctm g2 = gs_ctm g1"
    by blast
  from 1 2 show "\<exists>g'. run_calls (xs @ ys) (g, stack) = Some (g', stack) \<and> gs_ctm g' = gs_ctm g"
    by (simp add: run_calls_append)
qed

lemma scoped_concat: "(\<And>x. x \<in> set xs \<Longrightarrow> scoped (f x)) \<Longrightarrow> scoped (concat (map f xs))"
  by (induction xs) (simp_all add: scoped_Nil scoped_append)

lemma scoped_for_rng:
  "(\<And>i s. scoped (fst (body i s))) \<Longrightarrow> scoped (fst (for_rng body xs s))"
  by (induction xs arbitrary: s)
     (simp_all add: for_rng_Cons scoped_Nil scoped_append del: for_rng.simps(2))

lemma apply_call_plain_ctm:
  "plain c \<Longrightarrow> \<exists>g'. apply_call c (g, stack) = Some (g', stack) \<and> gs_ctm g' = gs_ctm g"
  by (cases c) simp_all

lemma scoped_plain: "\<forall>c \<in> set cs. plain c \<Longrightarrow> scoped cs"
proof (induction cs)
  case Nil
  show ?case by (rule scoped_Nil)
next
  case (Cons c cs)
  then have pc: "plain c" by simp
  have "scoped [c]"
    unfolding scoped_def
  proof (intro allI)
    fix g stack
    from apply_call_plain_ctm [OF pc, of g stack]
    obtain g' where "apply_call c (g, stack) = Some (g', stack)" "gs_ctm g' = gs_ctm g"
      by blast
    then show "\<exists>g'. run_calls [c] (g, stack) = Some (g', stack) \<and> gs_ctm g' = gs_ctm g"
      by simp
  qed
  moreover from Cons have "scoped cs" by simp
  ultimately show ?case using scoped_append [of "[c]" cs] by simp
qed

lemma scoped_block: "(\<And>st. run_calls cs st = Some st) \<Longrightarrow> scoped cs"
  by (simp add: scoped_def)


lemma hill_outline_plain: "\<forall>c \<in> set (fst (hill_outline R W base_y x s)). plain c"
  by (auto simp: hill_outline_draws dest!: set_zip_leftD )

lemma scoped_hills: "scoped (fst (draw_hills R W H s))"
  unfolding draw_hills_def
proof (rule scoped_for_rng)
  fix hill :: "real \<times> real \<times> real \<times> real \<times> real" and s :: 'a
  obtain base_y alpha hr hg hb where h: "hill = (base_y, alpha, hr, hg, hb)" by (cases hill)
  show "scoped (fst (draw_hill R W H hill s))"
    unfolding h
    by (rule scoped_plain)
       (use hill_outline_plain [of R W base_y 0 s] in
         \<open>auto simp: draw_hill_def case_prod_beta \<close>)
qed


lemma sun_ray_restores: "run_calls (sun_ray W H i len) st = Some st"
  by (cases st) (simp add: sun_ray_def rgb_def Let_def)

lemma vine_leaf_restores: "run_calls (vine_leaf px py leaf_angle leaf_size gv) st = Some st"
  by (cases st) (simp add: vine_leaf_def rgb_def)

lemma fern_restores: "run_calls (fern bx by' fern_h lean g) st = Some st"
proof -
  obtain gs stack where st: "st = (gs, stack)" by (cases st)
  have "fern bx by' fern_h lean g =
          Save # ([Translate bx by', Rotate lean, Set_source_rgba 0.15 g 0.12 0.3,
                   Set_line_width 1.2, Move_to 0 0,
                   Curve_to 3 (- fern_h * 0.3) (- 2) (- fern_h * 0.6) 1 (- fern_h), Stroke]
                  @ concat (map (fern_frond fern_h g) [0..<nat (py_int (fern_h / 8))]))
          @ [Restore]"
    by (simp add: fern_def)
  then show ?thesis
    unfolding st by (simp only:) (rule save_restore_block, simp add: fern_frond_def Let_def)
qed

lemma panel_restores: "run_calls (panel p) st = Some st"
proof -
  obtain gs stack where st: "st = (gs, stack)" by (cases st)
  obtain px py size' rot where p: "p = (px, py, size', rot)" by (cases p)
  show ?thesis
    unfolding st p
    by (simp add: panel_def rgb_def Let_def panel_divider_v_def panel_divider_h_def
          upt_conv_Cons)
qed

lemma corner_top_left_restores: "run_calls corner_top_left st = Some st"
  by (cases st) (simp add: corner_top_left_def rgb_def corner_arc_def upt_conv_Cons)

lemma corner_top_right_restores: "run_calls (corner_top_right W) st = Some st"
  by (cases st) (simp add: corner_top_right_def rgb_def corner_arc_def upt_conv_Cons)

lemma floating_leaf_restores: "run_calls (floating_leaf lx ly la ls lg a) st = Some st"
  by (cases st) (simp add: floating_leaf_def)

lemma scoped_sun_rays: "scoped (fst (sun_rays R W H s))"
  unfolding sun_rays_def
  by (rule scoped_for_rng)
     (simp add: sun_ray_step_def case_prod_beta scoped_block sun_ray_restores)

lemma scoped_backdrop: "scoped (fst (render_backdrop R W H s))"
proof -
  have "scoped (sky H)" by (rule scoped_plain) (simp add: sky_def)
  moreover have "scoped (sun_glow W H)"
    unfolding sun_glow_def
    by (rule scoped_concat, rule scoped_plain) (simp add: sun_glow_disc_def Let_def)
  moreover have "scoped (sun_core W H)"
    by (rule scoped_plain) (simp add: sun_core_def rgb_def)
  ultimately show ?thesis
    using scoped_sun_rays [of R W H s]
    by (simp add: render_backdrop_def case_prod_beta scoped_append)
qed

lemma scoped_vine: "scoped (fst (draw_vine R x_base y_start y_end side thickness s))"
proof (cases "length (vine_points x_base y_start y_end side) < 2")
  case True
  then show ?thesis by (simp add: draw_vine_def Let_def scoped_Nil)
next
  case False
  define points where "points = vine_points x_base y_start y_end side"
  define n where "n = int (length points)"
  define stem where "stem = [Set_line_width thickness, Set_line_cap LINE_CAP_ROUND,
                       rgb 42 100 35 0.55, Move_to (fst (points ! 0)) (snd (points ! 0))]
                      @ concat (map (vine_stem_seg points) (py_range 1 (n - 1) 2))
                      @ [Stroke]"
  define tendrils where "tendrils = [Set_line_width (thickness * 0.5), rgb 58 120 42 0.35]
                          @ concat (map (vine_tendril points side) (py_range 0 (n - 4) 3))"
  define leaves where
    "leaves = fst (for_rng (vine_leaf_step R points side) (py_range 0 (n - 1) 18) s)"
  define curls where "curls = concat (map (vine_curl points side) (py_range 0 (n - 1) 35))"
  have "scoped stem"
    unfolding stem_def
    by (intro scoped_append scoped_concat scoped_plain)
       (simp_all add: rgb_def vine_stem_seg_def)
  moreover have "scoped tendrils"
    unfolding tendrils_def
    by (intro scoped_append scoped_concat scoped_plain)
       (simp_all add: rgb_def vine_tendril_def Let_def)
  moreover have "scoped leaves"
    unfolding leaves_def
    by (rule scoped_for_rng)
       (simp add: vine_leaf_step_def Let_def case_prod_beta scoped_block vine_leaf_restores)
  moreover have "scoped curls"
    unfolding curls_def
    by (intro scoped_concat scoped_plain)
       (auto simp: vine_curl_def Let_def rgb_def vine_curl_point_def)
  ultimately have "scoped (stem @ tendrils @ leaves @ curls)"
    by (intro scoped_append)
  moreover have "fst (draw_vine R x_base y_start y_end side thickness s) =
                   stem @ tendrils @ leaves @ curls"
    using False
    by (simp add: draw_vine_def Let_def case_prod_beta points_def n_def stem_def tendrils_def
          leaves_def curls_def)
  ultimately show ?thesis by simp
qed

lemma scoped_vines: "scoped (fst (draw_vines R W H s))"
  by (simp add: draw_vines_def case_prod_beta Let_def scoped_append scoped_vine)

lemma scoped_ferns: "scoped (fst (ferns R W H s))"
  unfolding ferns_def
  by (rule scoped_for_rng)
     (simp add: fern_step_def Let_def case_prod_beta scoped_block fern_restores)

lemma scoped_panels: "scoped (draw_panels W H)"
  unfolding draw_panels_def
  by (rule scoped_concat) (simp add: scoped_block panel_restores)

lemma scoped_corners: "scoped (corners W)"
  by (simp add: corners_def scoped_append scoped_block corner_top_left_restores
        corner_top_right_restores)

lemma scoped_floating_leaves: "scoped (fst (floating_leaves R W H s))"
  unfolding floating_leaves_def
  by (rule scoped_for_rng)
     (simp add: floating_leaf_step_def Let_def case_prod_beta scoped_block
        floating_leaf_restores)

lemma scoped_pollen: "scoped (fst (pollen R W H s))"
  unfolding pollen_def
  by (rule scoped_for_rng, rule scoped_plain)
     (simp add: pollen_step_def Let_def case_prod_beta)

lemma scoped_grain: "scoped (fst (grain R W H s))"
  unfolding grain_def
  by (rule scoped_for_rng, rule scoped_plain)
     (simp add: grain_step_def Let_def case_prod_beta)

lemma scoped_foreground: "scoped (fst (render_foreground R W H s))"
proof -
  have "scoped (haze W H)" by (rule scoped_plain) (simp add: haze_def)
  moreover have "scoped (ground W H)" by (rule scoped_plain) (simp add: ground_def)
  moreover have "scoped (frame W H)" by (rule scoped_plain) (simp add: frame_def rgb_def Let_def)
  ultimately show ?thesis
    by (simp add: render_foreground_def Let_def case_prod_beta scoped_append scoped_hills
          scoped_vines scoped_ferns scoped_panels scoped_corners scoped_floating_leaves
          scoped_pollen scoped_grain)
qed

lemma scoped_main:
  assumes "generate R seed W H fs = Some (Inr r)"
  shows "scoped (out_main r)"
proof -
  have c: "scoped (composite_city img)" for img
    by (rule scoped_plain) (simp add: composite_city_def)
  from assms show ?thesis
    using scoped_backdrop [of R W H "rng_seed R seed"] c scoped_foreground [of R W H]
    by (auto simp: generate_def Let_def case_prod_beta scoped_append
          split: option.splits sum.splits)
qed

text \<open>
  Claim C8, as the code has it. Each block of the script that starts with \<open>save()\<close> ends
  with \<open>restore()\<close> and has no other exit: when it runs to its end, the graphics state
  (transform, source, line width and cap) and the stack of saved states are exactly what
  they were before the block. These are the ray, vine leaf, fern, panel, the two corner
  ornaments and the floating leaf. No other call of the script saves, restores or
  transforms, so the calls of a whole run on the main context leave the stack and the
  transformation as they found them.
\<close>

theorem save_restore_matched_on_completion:
  "run_calls (sun_ray W H i len) st = Some st \<and>
   run_calls (vine_leaf px py leaf_angle leaf_size gv) st = Some st \<and>
   run_calls (fern bx by' fern_h lean g) st = Some st \<and>
   run_calls (panel p) st = Some st \<and>
   run_calls corner_top_left st = Some st \<and>
   run_calls (corner_top_right W) st = Some st \<and>
   run_calls (floating_leaf lx ly la ls lg a) st = Some st \<and>
   (rng_ok R \<longrightarrow> (\<exists>r. generate R seed W H fs = Some (Inr r) \<and> scoped (out_main r)))"
proof -
  have "\<exists>r. generate R seed W H fs = Some (Inr r) \<and> scoped (out_main r)" if "rng_ok R"
  proof -
    from generate_explicit [OF that, of W H seed]
    obtain r where "generate R seed W H fs = Some (Inr r)" by blast
    then show ?thesis using scoped_main by blast
  qed
  then show ?thesis
    by (simp add: sun_ray_restores vine_leaf_restores fern_restores panel_restores
          corner_top_left_restores corner_top_right_restores floating_leaf_restores)
qed

theorem save_restore_matched_on_completion_witness:
  "rng_ok counter_rng \<and>
   run_calls (sun_ray 1800 1200 0 350) (initial_gstate, []) = Some (initial_gstate, []) \<and>
   (\<exists>r. generate counter_rng 42 1800 1200 Map.empty = Some (Inr r) \<and> scoped (out_main r))"
  using rng_ok_counter
    save_restore_matched_on_completion [where R = counter_rng and seed = 42 and W = 1800
      and H = 1200 and fs = Map.empty and i = 0 and len = 350 and st = "(initial_gstate, [])"]
  by blast

text \<open>
  Claim C8 as stated fails on the error path: when the \<open>stroke()\<close> of a ray raises, the
  script has made the seven calls before it and runs nothing after, so the saved state stays
  on the stack and the translation and rotation of the ray stay in force.
\<close>

theorem transform_leaks_on_abort:
  "run_calls (aborted_at 7 (sun_ray 1800 1200 0 350)) (initial_gstate, []) =
     Some (\<lparr> gs_ctm = [Translated 1476 96, Rotated 0.13],
              gs_source = Rgba_source (218 / 255) (180 / 255) (40 / 255) 0.14,
              gs_line_width = 1.5,
              gs_line_cap = LINE_CAP_BUTT \<rparr>, [initial_gstate])"
  by (simp add: aborted_at_def sun_ray_def rgb_def Let_def initial_gstate_def sun_x_def sun_y_def)

section \<open>The city layer and its compositing\<close>

































section \<open>The stub writer and the renderer\<close>

lemma stub_path_distinct:
  "pivx_integration_rs \<noteq> city_layer_png" "pivx_integration_rs \<noteq> base_layer_png"
  "pivx_integration_rs \<noteq> city_blurred_png" "pivx_integration_rs \<noteq> solarpunk_bg_png"
  by (simp_all add: pivx_integration_rs_def city_layer_png_def base_layer_png_def
        city_blurred_png_def solarpunk_bg_png_def)

text \<open>
  Claim C9. The stub writer writes the one constant text \<open>content\<close> to its file, whatever
  the file system holds, and so whatever seed and canvas size the renderer ran with before
  it. The renderer neither writes the stub file nor depends on it: run after the stub writer
  it makes the same calls on the main context.
\<close>

theorem stub_text_constant:
  assumes "rng_ok R"
  shows "write_pivx_module fs pivx_integration_rs = Some (Text_file content) \<and>
         write_pivx_module fs' pivx_integration_rs = write_pivx_module fs pivx_integration_rs \<and>
         (\<exists>r r'. generate R seed W H fs = Some (Inr r) \<and>
                 generate R seed W H (write_pivx_module fs) = Some (Inr r') \<and>
                 out_main r' = out_main r \<and>
                 out_files r pivx_integration_rs = fs pivx_integration_rs \<and>
                 write_pivx_module (out_files r) pivx_integration_rs = Some (Text_file content))"
proof -
  from generate_explicit [OF assms, of W H seed]
  obtain backdrop s1 city s2 foreground s3 where
    g: "\<forall>fs. generate R seed W H fs =
              Some (Inr \<lparr> out_main = backdrop
                            @ composite_city (Convert_result [''-blur'', ''0x8''] (Surface W H city))
                            @ foreground,
                          out_city = city,
                          out_files = write_to_png W H
                            (backdrop
                             @ composite_city (Convert_result [''-blur'', ''0x8''] (Surface W H city))
                             @ foreground) solarpunk_bg_png
                            (fs(city_layer_png \<mapsto> Png_file (Surface W H city),
                                base_layer_png \<mapsto> Png_file (Surface W H backdrop),
                                city_blurred_png \<mapsto>
                                  Png_file (Convert_result [''-blur'', ''0x8''] (Surface W H city)))),
                          out_rng = s3 \<rparr>)"
    by blast
  from g [rule_format, of fs] g [rule_format, of "write_pivx_module fs"] show ?thesis
    using stub_path_distinct by (simp add: write_to_png_def write_pivx_module_def)
qed

theorem stub_text_constant_witness:
  "rng_ok counter_rng \<and>
   write_pivx_module Map.empty pivx_integration_rs = Some (Text_file content) \<and>
   write_pivx_module (Map.empty(solarpunk_bg_png \<mapsto> Text_file ''x'')) pivx_integration_rs =
     write_pivx_module Map.empty pivx_integration_rs \<and>
   (\<exists>r r'. generate counter_rng 42 1800 1200 Map.empty = Some (Inr r) \<and>
           generate counter_rng 7 100 100 (write_pivx_module Map.empty) = Some (Inr r') \<and>
           write_pivx_module (out_files r) pivx_integration_rs = Some (Text_file content) \<and>
           write_pivx_module (out_files r') pivx_integration_rs = Some (Text_file content))"
proof -
  from stub_text_constant [OF rng_ok_counter, of Map.empty
      "Map.empty(solarpunk_bg_png \<mapsto> Text_file ''x'')" 42 1800 1200]
    stub_text_constant [OF rng_ok_counter, of "write_pivx_module Map.empty" Map.empty 7 100 100]
  show ?thesis using rng_ok_counter by blast
qed

section \<open>The early return of \<open>draw_vine\<close>\<close>

lemma vine_points_short:
  "length (vine_points x_base y y_end side) < 2 \<longleftrightarrow> y_end \<le> y + 3"
  by (subst vine_points.simps, subst vine_points.simps) (simp add: Let_def)

text \<open>
  Claim C10. When the sampling loop of \<open>draw_vine(x_base, y_start, y_end, side, thickness)\<close>
  yields fewer than two points, the function returns before its first call on the context:
  it makes no call at all (no stroke, leaf or curl is drawn, so the canvas is unchanged) and
  draws no random number.
\<close>

theorem draw_vine_early_return:
  assumes "length (vine_points x_base y_start y_end side) < 2"
  shows "draw_vine R x_base y_start y_end side thickness s = ([], s)"
  using assms by (simp add: draw_vine_def Let_def)

theorem draw_vine_early_return_witness:
  "length (vine_points 25 50 53 ''left'') < 2 \<and>
   draw_vine counter_rng 25 50 53 ''left'' 3 0 = ([], 0)"
proof -
  have h: "length (vine_points 25 50 53 ''left'') < 2"
    by (simp add: vine_points_short)
  show ?thesis using h draw_vine_early_return [OF h, of counter_rng 3 0] by simp
qed

end
